theory Spec2Isabelle
  imports Main
begin

section \<open>JavaScript values\<close>

text \<open>
  Every value the handlers inspect comes out of \<^verbatim>\<open>JSON.parse\<close> (a request body, a
  processor response, a stored session), so values are JSON documents. \<^verbatim>\<open>undefined\<close>
  is not a JSON value: a JavaScript value is a \<open>json option\<close> with \<open>None\<close> for
  \<^verbatim>\<open>undefined\<close>. Numbers are integers (amounts are minor currency units); an object
  is the list of its members, each key once, as the parser returns it. Strings are lists
  of 8-bit characters.
\<close>

datatype json = JNull | JBool bool | JNum int | JStr string
  | JArr "json list" | JObj "(string \<times> json) list"

type_synonym jsval = "json option"

text \<open>An object under construction: members may hold \<^verbatim>\<open>undefined\<close>.\<close>

type_synonym js_object = "(string \<times> jsval) list"

datatype js_error = Error string | TypeError string | SyntaxError string

fun message :: "js_error \<Rightarrow> string" where
  "message (Error m) = m"
| "message (TypeError m) = m"
| "message (SyntaxError m) = m"

text \<open>Truthiness, as \<^verbatim>\<open>!x\<close> and \<^verbatim>\<open>x || y\<close> test it.\<close>

fun truthy :: "jsval \<Rightarrow> bool" where
  "truthy None = False"
| "truthy (Some JNull) = False"
| "truthy (Some (JBool b)) = b"
| "truthy (Some (JNum n)) = (n \<noteq> 0)"
| "truthy (Some (JStr s)) = (s \<noteq> [])"
| "truthy (Some (JArr xs)) = True"
| "truthy (Some (JObj fs)) = True"

definition js_or :: "jsval \<Rightarrow> jsval \<Rightarrow> jsval" where
  "js_or a b = (if truthy a then a else b)"

text \<open>
  Member access \<^verbatim>\<open>v.name\<close>: a TypeError on \<^verbatim>\<open>undefined\<close> and \<^verbatim>\<open>null\<close>, the member of
  an object, \<^verbatim>\<open>undefined\<close> on every other value (none of the names the code reads is a
  prototype property of a string, number, boolean or array).
\<close>

fun get_member :: "json \<Rightarrow> string \<Rightarrow> jsval" where
  "get_member (JObj fs) name = map_of fs name"
| "get_member _ name = None"

fun getProp :: "jsval \<Rightarrow> string \<Rightarrow> js_error + jsval" where
  "getProp None name =
     Inl (TypeError (''Cannot read properties of undefined (reading '' @ name @ '')''))"
| "getProp (Some JNull) name =
     Inl (TypeError (''Cannot read properties of null (reading '' @ name @ '')''))"
| "getProp (Some v) name = Inr (get_member v name)"

text \<open>Optional chaining \<^verbatim>\<open>v?.name\<close>.\<close>

fun optChain :: "jsval \<Rightarrow> string \<Rightarrow> jsval" where
  "optChain None name = None"
| "optChain (Some JNull) name = None"
| "optChain (Some v) name = get_member v name"

definition obj_prop :: "js_object \<Rightarrow> string \<Rightarrow> jsval" where
  "obj_prop obj name = (case map_of obj name of None \<Rightarrow> None | Some v \<Rightarrow> v)"

text \<open>
  \<^verbatim>\<open>JSON.stringify\<close> of an object literal, read back: members holding \<^verbatim>\<open>undefined\<close>
  are dropped.
\<close>

definition stringify :: "js_object \<Rightarrow> json" where
  "stringify obj = JObj (List.map_filter (\<lambda>(k, v). map_option (Pair k) v) obj)"

subsection \<open>Strings and numbers\<close>

definition digit_char :: "nat \<Rightarrow> char" where
  "digit_char d = ''0123456789'' ! d"

fun string_of_nat :: "nat \<Rightarrow> string" where
  "string_of_nat n =
     (if n < 10 then [digit_char n]
      else string_of_nat (n div 10) @ [digit_char (n mod 10)])"

declare string_of_nat.simps [simp del]

definition string_of_int :: "int \<Rightarrow> string" where
  "string_of_int i =
     (if i < 0 then CHR ''-'' # string_of_nat (nat (- i)) else string_of_nat (nat i))"

fun js_join :: "string list \<Rightarrow> string" where
  "js_join [] = []"
| "js_join [s] = s"
| "js_join (s # t # ss) = s @ CHR '','' # js_join (t # ss)"

text \<open>\<^verbatim>\<open>String(v)\<close>, which a template literal applies to each hole.\<close>

fun json_String :: "json \<Rightarrow> string" where
  "json_String JNull = ''null''"
| "json_String (JBool b) = (if b then ''true'' else ''false'')"
| "json_String (JNum n) = string_of_int n"
| "json_String (JStr s) = s"
| "json_String (JArr xs) =
     js_join (map (\<lambda>x. case x of JNull \<Rightarrow> [] | _ \<Rightarrow> json_String x) xs)"
| "json_String (JObj fs) = ''[object Object]''"

definition template :: "jsval \<Rightarrow> string" where
  "template v = (case v of None \<Rightarrow> ''undefined'' | Some j \<Rightarrow> json_String j)"

text \<open>\<^verbatim>\<open>toLowerCase\<close> on 8-bit strings: the letters A to Z change, nothing else does.\<close>

definition lower_char :: "char \<Rightarrow> char" where
  "lower_char c =
     (case map_of (zip ''ABCDEFGHIJKLMNOPQRSTUVWXYZ'' ''abcdefghijklmnopqrstuvwxyz'') c of
        None \<Rightarrow> c | Some d \<Rightarrow> d)"

definition toLowerCase :: "string \<Rightarrow> string" where
  "toLowerCase s = map lower_char s"

definition digit_val :: "char \<Rightarrow> nat option" where
  "digit_val c = map_of (zip ''0123456789'' [0, 1, 2, 3, 4, 5, 6, 7, 8, 9]) c"

text \<open>
  \<^verbatim>\<open>parseInt(s)\<close> in base 10: leading white space, a sign, the longest run of digits;
  \<open>None\<close> is NaN. (The counters hold what \<^verbatim>\<open>String(n)\<close> wrote, never a \<^verbatim>\<open>0x\<close> prefix.)
\<close>

definition js_parseInt :: "string \<Rightarrow> int option" where
  "js_parseInt s =
     (let t = dropWhile (\<lambda>c. c \<in> set [CHR '' '', CHR 0x09, CHR 0x0A, CHR 0x0D]) s;
          neg = (case t of c # _ \<Rightarrow> c = CHR ''-'' | [] \<Rightarrow> False);
          u = (case t of c # r \<Rightarrow> if c = CHR ''-'' \<or> c = CHR ''+'' then r else t | [] \<Rightarrow> t);
          ds = takeWhile (\<lambda>c. digit_val c \<noteq> None) u;
          n = foldl (\<lambda>a c. 10 * a + int (the (digit_val c))) 0 ds
      in if ds = [] then None else Some (if neg then - n else n))"

definition number_String :: "int option \<Rightarrow> string" where
  "number_String n = (case n of None \<Rightarrow> ''NaN'' | Some i \<Rightarrow> string_of_int i)"

text \<open>\<^verbatim>\<open>s.split(c)\<close> for a one-character separator: never the empty list.\<close>

fun split :: "char \<Rightarrow> string \<Rightarrow> string list" where
  "split c [] = [[]]"
| "split c (x # xs) =
     (if x = c then [] # split c xs
      else (case split c xs of p # ps \<Rightarrow> (x # p) # ps | [] \<Rightarrow> [[x]]))"

section \<open>The Worker runtime\<close>

text \<open>
  The three KV namespaces are bound and answer every call; a key does not expire
  between the steps of one theorem. Each entry keeps the \<^verbatim>\<open>expirationTtl\<close> it was put
  with. \<open>trace\<close> lists, in order, every KV call, every \<^verbatim>\<open>fetch\<close> and every log line.
  \<open>pending\<close> holds the writes of promises nobody awaits (the logger's error counter):
  key and new value, read when the promise was started.
\<close>

datatype kv_namespace = SESSIONS_kv | EVENTS_kv | METRICS_kv

datatype log_level = DEBUG | INFO | WARN | ERROR

datatype effect =
    KvGet kv_namespace string
  | KvPut kv_namespace string nat
  | Fetch string string
  | ConsoleLog log_level string

record world =
  SESSIONS :: "string \<rightharpoonup> json \<times> nat"
  EVENTS :: "string \<rightharpoonup> json \<times> nat"
  METRICS :: "string \<rightharpoonup> string \<times> nat"
  pending :: "(string \<times> string) list"
  trace :: "effect list"

text \<open>What \<^verbatim>\<open>fetch\<close> resolves to: \<^verbatim>\<open>ok\<close>, \<^verbatim>\<open>statusText\<close>, \<^verbatim>\<open>text()\<close> and \<^verbatim>\<open>json()\<close>
  (\<open>None\<close> when the body is not JSON).\<close>

record upstream =
  resp_ok :: bool
  resp_statusText :: string
  resp_text :: string
  resp_json :: "json option"

text \<open>
  The globals of one handler run: the network as a function of method and URL
  (\<open>Inl\<close> when \<^verbatim>\<open>fetch\<close> rejects), HMAC-SHA-256 as hexadecimal text of key and message
  (\<open>None\<close> when WebCrypto throws), and the clock, which stands still during a run:
  \<^verbatim>\<open>new Date().toISOString()\<close> and \<^verbatim>\<open>Date.now()\<close>. What a request carries besides its
  method and URL does not change the answer.
\<close>

record runtime =
  fetch :: "string \<Rightarrow> string \<Rightarrow> js_error + upstream"
  hmacSha256Hex :: "string \<Rightarrow> string \<Rightarrow> string option"
  now_iso :: string
  now_ms :: int

record env =
  INTERNAL_BACKEND_URL :: "string option"
  PADDLE_WEBHOOK_SECRET :: string
  PADDLE_SANDBOX :: "string option"
  PAYPAL_SANDBOX :: "string option"
  LOG_LEVEL :: "nat option"

record request =
  headers :: "string \<rightharpoonup> string"
  body_text :: string
  body_json :: "json option"

subsection \<open>Promises: state and exceptions\<close>

type_synonym 'a io = "world \<Rightarrow> (js_error + 'a) \<times> world"

definition resolve :: "'a \<Rightarrow> 'a io" where
  "resolve x = (\<lambda>w. (Inr x, w))"

definition reject :: "js_error \<Rightarrow> 'a io" where
  "reject e = (\<lambda>w. (Inl e, w))"

definition await :: "'a io \<Rightarrow> ('a \<Rightarrow> 'b io) \<Rightarrow> 'b io" where
  "await m f = (\<lambda>w. case m w of (Inl e, w') \<Rightarrow> (Inl e, w') | (Inr x, w') \<Rightarrow> f x w')"

definition try_catch :: "'a io \<Rightarrow> (js_error \<Rightarrow> 'a io) \<Rightarrow> 'a io" where
  "try_catch m h = (\<lambda>w. case m w of (Inl e, w') \<Rightarrow> h e w' | (Inr x, w') \<Rightarrow> (Inr x, w'))"

definition lift :: "js_error + 'a \<Rightarrow> 'a io" where
  "lift r = (\<lambda>w. (r, w))"

definition emit :: "effect \<Rightarrow> unit io" where
  "emit e = (\<lambda>w. (Inr (), w\<lparr>trace := trace w @ [e]\<rparr>))"

definition js_fetch :: "runtime \<Rightarrow> string \<Rightarrow> string \<Rightarrow> upstream io" where
  "js_fetch rt method url = await (emit (Fetch method url)) (\<lambda>_. lift (fetch rt method url))"

definition response_json :: "upstream \<Rightarrow> json io" where
  "response_json r =
     (case resp_json r of
        None \<Rightarrow> reject (SyntaxError ''Unexpected token in JSON'')
      | Some j \<Rightarrow> resolve j)"

definition today :: "runtime \<Rightarrow> string" where
  "today rt = (case split (CHR ''T'') (now_iso rt) of d # _ \<Rightarrow> d | [] \<Rightarrow> [])"

subsection \<open>utils/kv.js\<close>

definition storeSession :: "jsval \<Rightarrow> js_object \<Rightarrow> nat option \<Rightarrow> unit io" where
  "storeSession sessionId data ttl_arg =
     (let ttl = (case ttl_arg of None \<Rightarrow> 3600 | Some t \<Rightarrow> t);
          key = ''session:'' @ template sessionId
      in (\<lambda>w. (Inr (), w\<lparr>SESSIONS := (SESSIONS w)(key \<mapsto> (stringify data, ttl)),
                          trace := trace w @ [KvPut SESSIONS_kv key ttl]\<rparr>)))"

definition getSession :: "jsval \<Rightarrow> json io" where
  "getSession sessionId =
     (let key = ''session:'' @ template sessionId
      in (\<lambda>w. (Inr (case SESSIONS w key of None \<Rightarrow> JNull | Some (d, _) \<Rightarrow> d),
               w\<lparr>trace := trace w @ [KvGet SESSIONS_kv key]\<rparr>)))"

definition event_key :: "string \<Rightarrow> jsval \<Rightarrow> string" where
  "event_key provider eventId = ''evt:'' @ provider @ '':'' @ template eventId"

definition isEventProcessed :: "string \<Rightarrow> jsval \<Rightarrow> bool io" where
  "isEventProcessed provider eventId =
     (let key = event_key provider eventId
      in (\<lambda>w. (Inr (EVENTS w key \<noteq> None), w\<lparr>trace := trace w @ [KvGet EVENTS_kv key]\<rparr>)))"

definition markEventProcessed ::
  "runtime \<Rightarrow> string \<Rightarrow> jsval \<Rightarrow> js_object \<Rightarrow> nat option \<Rightarrow> unit io" where
  "markEventProcessed rt provider eventId data ttl_arg =
     (let ttl = (case ttl_arg of None \<Rightarrow> 604800 | Some t \<Rightarrow> t);
          key = event_key provider eventId;
          doc = stringify ((''processed_at'', Some (JStr (now_iso rt))) # data)
      in (\<lambda>w. (Inr (), w\<lparr>EVENTS := (EVENTS w)(key \<mapsto> (doc, ttl)),
                          trace := trace w @ [KvPut EVENTS_kv key ttl]\<rparr>)))"

definition counter_next :: "(string \<times> nat) option \<Rightarrow> string" where
  "counter_next stored =
     (let current = (case stored of None \<Rightarrow> ''0'' | Some (s, _) \<Rightarrow> if s = [] then ''0'' else s)
      in number_String (map_option (\<lambda>n. n + 1) (js_parseInt current)))"

definition incrementCounter :: "string \<Rightarrow> nat option \<Rightarrow> int option io" where
  "incrementCounter counterKey ttl_arg =
     (\<lambda>w. let ttl = (case ttl_arg of None \<Rightarrow> 86400 | Some t \<Rightarrow> t);
               newValue = counter_next (METRICS w counterKey)
           in (Inr (js_parseInt newValue),
               w\<lparr>METRICS := (METRICS w)(counterKey \<mapsto> (newValue, ttl)),
                 trace := trace w @ [KvGet METRICS_kv counterKey, KvPut METRICS_kv counterKey ttl]\<rparr>))"

subsection \<open>utils/logger.js\<close>

record logger =
  minLevel :: nat
  metrics_bound :: bool

fun LOG_LEVELS :: "log_level \<Rightarrow> nat" where
  "LOG_LEVELS DEBUG = 0"
| "LOG_LEVELS INFO = 1"
| "LOG_LEVELS WARN = 2"
| "LOG_LEVELS ERROR = 3"

definition createLogger :: "env \<Rightarrow> logger" where
  "createLogger e =
     \<lparr>minLevel = (case LOG_LEVEL e of None \<Rightarrow> 1 | Some n \<Rightarrow> if n = 0 then 1 else n),
      metrics_bound = True\<rparr>"

text \<open>
  \<^verbatim>\<open>_incrementErrorMetric\<close> is called and not awaited: its \<^verbatim>\<open>get\<close> is issued at the call,
  its \<^verbatim>\<open>put\<close> waits in \<open>pending\<close> until the event loop runs it (\<open>run_detached\<close>). No
  caller passes a \<^verbatim>\<open>route\<close>, so the key is \<^verbatim>\<open>error:unknown:<date>\<close>.
\<close>

definition error_metric_key :: "runtime \<Rightarrow> string option \<Rightarrow> string" where
  "error_metric_key rt route =
     ''error:'' @ (case route of None \<Rightarrow> ''unknown'' | Some r \<Rightarrow> if r = [] then ''unknown'' else r)
       @ '':'' @ today rt"

definition incrementErrorMetric :: "runtime \<Rightarrow> string option \<Rightarrow> unit io" where
  "incrementErrorMetric rt route =
     (let key = error_metric_key rt route
      in (\<lambda>w. (Inr (), w\<lparr>pending := pending w @ [(key, counter_next (METRICS w key))],
                          trace := trace w @ [KvGet METRICS_kv key]\<rparr>)))"

definition logger_log :: "logger \<Rightarrow> runtime \<Rightarrow> log_level \<Rightarrow> string \<Rightarrow> unit io" where
  "logger_log lg rt level msg =
     (if LOG_LEVELS level < minLevel lg then resolve ()
      else await (emit (ConsoleLog level msg)) (\<lambda>_.
           if metrics_bound lg \<and> level = ERROR then incrementErrorMetric rt None
           else resolve ()))"

fun run_detached_step :: "world \<Rightarrow> string \<times> string \<Rightarrow> world" where
  "run_detached_step w (key, v) =
     w\<lparr>METRICS := (METRICS w)(key \<mapsto> (v, 86400 * 30)),
       trace := trace w @ [KvPut METRICS_kv key (86400 * 30)]\<rparr>"

definition run_detached :: "world \<Rightarrow> world" where
  "run_detached w = (foldl run_detached_step w (pending w))\<lparr>pending := []\<rparr>"

subsection \<open>utils/response.js\<close>

record http_response =
  status :: nat
  json_body :: json

definition jsonResponse :: "js_object \<Rightarrow> nat \<Rightarrow> http_response" where
  "jsonResponse data code = \<lparr>status = code, json_body = stringify data\<rparr>"

definition successResponse :: "jsval \<Rightarrow> string \<Rightarrow> http_response" where
  "successResponse data msg =
     jsonResponse [(''success'', Some (JBool True)), (''message'', Some (JStr msg)),
                   (''data'', data)] 200"

definition errorResponse :: "string \<Rightarrow> nat \<Rightarrow> http_response" where
  "errorResponse msg code =
     jsonResponse [(''success'', Some (JBool False)), (''error'', Some (JStr msg))] code"

subsection \<open>utils/webhook.js\<close>

definition verifyHmacSignature :: "runtime \<Rightarrow> string \<Rightarrow> string \<Rightarrow> string \<Rightarrow> bool" where
  "verifyHmacSignature rt payload signature secret =
     (case hmacSha256Hex rt secret payload of
        None \<Rightarrow> False
      | Some expectedSignature \<Rightarrow>
          (let cleanSignature =
                 (if CHR ''='' \<in> set signature
                  then (case split (CHR ''='') signature of _ # s # _ \<Rightarrow> Some s | _ \<Rightarrow> None)
                  else Some signature)
           in Some expectedSignature = cleanSignature))"

definition isTimestampValid :: "runtime \<Rightarrow> int \<Rightarrow> int option \<Rightarrow> bool" where
  "isTimestampValid rt timestamp tolerance_arg =
     (let toleranceSeconds = (case tolerance_arg of None \<Rightarrow> 300 | Some t \<Rightarrow> t);
          currentTime = now_ms rt div 1000;
          difference = \<bar>currentTime - timestamp\<bar>
      in difference \<le> toleranceSeconds)"

section \<open>adapters/providerAdapter.js\<close>

datatype adapter = PaddleAdapter | PayPalAdapter | StripeAdapter

fun getName :: "adapter \<Rightarrow> string" where
  "getName PaddleAdapter = ''paddle''"
| "getName PayPalAdapter = ''paypal''"
| "getName StripeAdapter = ''stripe''"

text \<open>
  The factory: \<^verbatim>\<open>provider.toLowerCase()\<close> is a TypeError on anything but a string; the
  \<^verbatim>\<open>switch\<close> has three cases and a \<^verbatim>\<open>default\<close> that throws with the name as given.
\<close>

fun getProviderAdapter :: "jsval \<Rightarrow> js_error + adapter" where
  "getProviderAdapter (Some (JStr provider)) =
     (let providerName = toLowerCase provider
      in if providerName = ''paddle'' then Inr PaddleAdapter
         else if providerName = ''paypal'' then Inr PayPalAdapter
         else if providerName = ''stripe'' then Inr StripeAdapter
         else Inl (Error (''Unsupported payment provider: '' @ provider)))"
| "getProviderAdapter None =
     Inl (TypeError ''Cannot read properties of undefined (reading toLowerCase)'')"
| "getProviderAdapter (Some JNull) =
     Inl (TypeError ''Cannot read properties of null (reading toLowerCase)'')"
| "getProviderAdapter (Some v) = Inl (TypeError ''provider.toLowerCase is not a function'')"

definition request_json :: "request \<Rightarrow> json io" where
  "request_json req =
     (case body_json req of
        None \<Rightarrow> reject (SyntaxError ''Unexpected token in JSON'')
      | Some j \<Rightarrow> resolve j)"

definition falsy_string :: "string option \<Rightarrow> bool" where
  "falsy_string s = (case s of None \<Rightarrow> True | Some t \<Rightarrow> t = [])"

section \<open>adapters/paddle.js\<close>

definition paddle_baseUrl :: "env \<Rightarrow> string" where
  "paddle_baseUrl e =
     (if PADDLE_SANDBOX e = Some ''true'' then ''https://sandbox-api.paddle.com''
      else ''https://api.paddle.com'')"

definition Paddle_createCheckoutSession ::
  "runtime \<Rightarrow> env \<Rightarrow> logger \<Rightarrow> js_object \<Rightarrow> js_object io" where
  "Paddle_createCheckoutSession rt e lg payload =
     try_catch
       (await (js_fetch rt ''POST'' (paddle_baseUrl e @ ''/transactions'')) (\<lambda>response.
        if \<not> resp_ok response
        then reject (Error (''Paddle API error: '' @ resp_text response))
        else
        await (response_json response) (\<lambda>data.
        await (lift (getProp (Some data) ''data'')) (\<lambda>d.
        await (lift (getProp d ''id'')) (\<lambda>sid.
        await (logger_log lg rt INFO ''Paddle checkout session created'') (\<lambda>_.
        await (lift (getProp d ''checkout'')) (\<lambda>checkout.
        await (lift (getProp d ''url'')) (\<lambda>url.
        resolve [(''sessionId'', sid),
                 (''checkoutUrl'', js_or (optChain checkout ''url'') url),
                 (''provider'', Some (JStr ''paddle''))]))))))))
       (\<lambda>error.
        await (logger_log lg rt ERROR ''Failed to create Paddle checkout session'') (\<lambda>_.
        reject error))"

text \<open>
  \<^verbatim>\<open>signature.split(';').forEach(part => { const [key, value] = part.split('=');
  sigParts[key] = value; })\<close>: the last assignment to a key is the one read back.
\<close>

definition sig_part :: "string \<Rightarrow> string \<times> string option" where
  "sig_part part =
     (case split (CHR ''='') part of
        key # v # _ \<Rightarrow> (key, Some v)
      | [key] \<Rightarrow> (key, None)
      | [] \<Rightarrow> ([], None))"

definition sigParts :: "string \<Rightarrow> string \<Rightarrow> string option" where
  "sigParts signature name =
     (case map_of (rev (map sig_part (split (CHR '';'') signature))) name of
        None \<Rightarrow> None
      | Some v \<Rightarrow> v)"

definition Paddle_verifyWebhook ::
  "runtime \<Rightarrow> env \<Rightarrow> logger \<Rightarrow> request \<Rightarrow> js_object io" where
  "Paddle_verifyWebhook rt e lg req =
     (if falsy_string (headers req ''paddle-signature'')
      then reject (Error ''Missing Paddle signature header'')
      else
      let signature = the (headers req ''paddle-signature'');
          payload = body_text req
      in
      await (request_json req) (\<lambda>eventData.
      let timestamp = sigParts signature ''ts'';
          receivedSignature = sigParts signature ''h1''
      in
      if falsy_string timestamp \<or> falsy_string receivedSignature
      then reject (Error ''Invalid Paddle signature format'')
      else
      let signedPayload = the timestamp @ '':'' @ payload;
          isValid = verifyHmacSignature rt signedPayload (the receivedSignature)
                      (PADDLE_WEBHOOK_SECRET e)
      in
      if \<not> isValid
      then reject (Error ''Invalid Paddle webhook signature'')
      else
      await (lift (getProp (Some eventData) ''event_type'')) (\<lambda>eventType.
      await (lift (getProp (Some eventData) ''event_id'')) (\<lambda>eventId.
      await (logger_log lg rt INFO ''Paddle webhook verified'') (\<lambda>_.
      await (lift (getProp (Some eventData) ''data'')) (\<lambda>d.
      resolve [(''eventId'', eventId), (''eventType'', eventType), (''data'', d),
               (''rawPayload'', Some eventData)]))))))"

definition Paddle_getSession :: "runtime \<Rightarrow> env \<Rightarrow> logger \<Rightarrow> string \<Rightarrow> jsval io" where
  "Paddle_getSession rt e lg sessionId =
     try_catch
       (await (js_fetch rt ''GET'' (paddle_baseUrl e @ ''/transactions/'' @ sessionId))
          (\<lambda>response.
        if \<not> resp_ok response
        then reject (Error (''Failed to get Paddle session: '' @ resp_statusText response))
        else
        await (response_json response) (\<lambda>data.
        lift (getProp (Some data) ''data''))))
       (\<lambda>error.
        await (logger_log lg rt ERROR ''Failed to get Paddle session'') (\<lambda>_.
        reject error))"

definition Paddle_createSubscription ::
  "runtime \<Rightarrow> env \<Rightarrow> logger \<Rightarrow> js_object \<Rightarrow> js_object io" where
  "Paddle_createSubscription rt e lg payload =
     try_catch
       (await (js_fetch rt ''POST'' (paddle_baseUrl e @ ''/subscriptions'')) (\<lambda>response.
        if \<not> resp_ok response
        then reject (Error (''Paddle subscription error: '' @ resp_text response))
        else
        await (response_json response) (\<lambda>data.
        await (lift (getProp (Some data) ''data'')) (\<lambda>d.
        await (lift (getProp d ''id'')) (\<lambda>sid.
        await (logger_log lg rt INFO ''Paddle subscription created'') (\<lambda>_.
        await (lift (getProp d ''checkout'')) (\<lambda>checkout.
        resolve [(''subscriptionId'', sid),
                 (''checkoutUrl'', optChain checkout ''url''),
                 (''provider'', Some (JStr ''paddle''))])))))))
       (\<lambda>error.
        await (logger_log lg rt ERROR ''Failed to create Paddle subscription'') (\<lambda>_.
        reject error))"

definition Paddle_cancelSubscription ::
  "runtime \<Rightarrow> env \<Rightarrow> logger \<Rightarrow> string \<Rightarrow> jsval io" where
  "Paddle_cancelSubscription rt e lg subscriptionId =
     try_catch
       (await (js_fetch rt ''POST''
                 (paddle_baseUrl e @ ''/subscriptions/'' @ subscriptionId @ ''/cancel''))
          (\<lambda>response.
        if \<not> resp_ok response
        then reject (Error (''Failed to cancel Paddle subscription: ''
                             @ resp_statusText response))
        else
        await (response_json response) (\<lambda>data.
        await (logger_log lg rt INFO ''Paddle subscription cancelled'') (\<lambda>_.
        lift (getProp (Some data) ''data'')))))
       (\<lambda>error.
        await (logger_log lg rt ERROR ''Failed to cancel Paddle subscription'') (\<lambda>_.
        reject error))"

section \<open>adapters/paypal.js\<close>

definition paypal_baseUrl :: "env \<Rightarrow> string" where
  "paypal_baseUrl e =
     (if PAYPAL_SANDBOX e = Some ''true'' then ''https://api-m.sandbox.paypal.com''
      else ''https://api-m.paypal.com'')"

text \<open>
  Every handler builds its adapter anew (\<^verbatim>\<open>accessToken = null\<close>) and asks for the token
  once, so the cached-token test at the top of \<^verbatim>\<open>getAccessToken\<close> is false and the
  request is always made.
\<close>

definition getAccessToken :: "runtime \<Rightarrow> env \<Rightarrow> logger \<Rightarrow> jsval io" where
  "getAccessToken rt e lg =
     try_catch
       (await (js_fetch rt ''POST'' (paypal_baseUrl e @ ''/v1/oauth2/token'')) (\<lambda>response.
        if \<not> resp_ok response
        then reject (Error (''Failed to get PayPal access token: ''
                             @ resp_statusText response))
        else
        await (response_json response) (\<lambda>data.
        await (lift (getProp (Some data) ''access_token'')) (\<lambda>accessToken.
        await (lift (getProp (Some data) ''expires_in'')) (\<lambda>_.
        resolve accessToken)))))
       (\<lambda>error.
        await (logger_log lg rt ERROR ''Failed to get PayPal access token'') (\<lambda>_.
        reject error))"

text \<open>\<^verbatim>\<open>data.links.find((link) => link.rel === 'approve')\<close>.\<close>

fun find_approve :: "json list \<Rightarrow> js_error + jsval" where
  "find_approve [] = Inr None"
| "find_approve (link # rest) =
     (case getProp (Some link) ''rel'' of
        Inl err \<Rightarrow> Inl err
      | Inr rel \<Rightarrow> if rel = Some (JStr ''approve'') then Inr (Some link) else find_approve rest)"

fun links_find :: "jsval \<Rightarrow> js_error + jsval" where
  "links_find (Some (JArr xs)) = find_approve xs"
| "links_find None = Inl (TypeError ''Cannot read properties of undefined (reading find)'')"
| "links_find (Some JNull) = Inl (TypeError ''Cannot read properties of null (reading find)'')"
| "links_find (Some v) = Inl (TypeError ''data.links.find is not a function'')"

definition PayPal_createCheckoutSession ::
  "runtime \<Rightarrow> env \<Rightarrow> logger \<Rightarrow> js_object \<Rightarrow> js_object io" where
  "PayPal_createCheckoutSession rt e lg payload =
     try_catch
       (await (getAccessToken rt e lg) (\<lambda>token.
        await (js_fetch rt ''POST'' (paypal_baseUrl e @ ''/v2/checkout/orders'')) (\<lambda>response.
        if \<not> resp_ok response
        then reject (Error (''PayPal API error: '' @ resp_text response))
        else
        await (response_json response) (\<lambda>data.
        await (lift (getProp (Some data) ''links'')) (\<lambda>links.
        await (lift (links_find links)) (\<lambda>approvalLink.
        await (lift (getProp (Some data) ''id'')) (\<lambda>sid.
        await (logger_log lg rt INFO ''PayPal order created'') (\<lambda>_.
        resolve [(''sessionId'', sid),
                 (''checkoutUrl'', js_or (optChain approvalLink ''href'') (Some (JStr []))),
                 (''provider'', Some (JStr ''paypal''))]))))))))
       (\<lambda>error.
        await (logger_log lg rt ERROR ''Failed to create PayPal order'') (\<lambda>_.
        reject error))"

definition PayPal_verifyWebhook ::
  "runtime \<Rightarrow> env \<Rightarrow> logger \<Rightarrow> request \<Rightarrow> js_object io" where
  "PayPal_verifyWebhook rt e lg req =
     (if falsy_string (headers req ''paypal-transmission-id'')
         \<or> falsy_string (headers req ''paypal-transmission-sig'')
      then reject (Error ''Missing PayPal webhook headers'')
      else
      await (request_json req) (\<lambda>eventData.
      try_catch
        (await (getAccessToken rt e lg) (\<lambda>token.
         await (js_fetch rt ''POST''
                  (paypal_baseUrl e @ ''/v1/notifications/verify-webhook-signature''))
           (\<lambda>response.
         if \<not> resp_ok response
         then reject (Error (''PayPal webhook verification failed: ''
                              @ resp_statusText response))
         else
         await (response_json response) (\<lambda>verification.
         await (lift (getProp (Some verification) ''verification_status'')) (\<lambda>vstatus.
         if vstatus \<noteq> Some (JStr ''SUCCESS'')
         then reject (Error ''Invalid PayPal webhook signature'')
         else
         await (lift (getProp (Some eventData) ''event_type'')) (\<lambda>eventType.
         await (lift (getProp (Some eventData) ''id'')) (\<lambda>eventId.
         await (logger_log lg rt INFO ''PayPal webhook verified'') (\<lambda>_.
         await (lift (getProp (Some eventData) ''resource'')) (\<lambda>resource.
         resolve [(''eventId'', eventId), (''eventType'', eventType), (''data'', resource),
                  (''rawPayload'', Some eventData)])))))))))
        (\<lambda>error.
         await (logger_log lg rt ERROR ''PayPal webhook verification error'') (\<lambda>_.
         reject error))))"

definition PayPal_getSession :: "runtime \<Rightarrow> env \<Rightarrow> logger \<Rightarrow> string \<Rightarrow> jsval io" where
  "PayPal_getSession rt e lg sessionId =
     try_catch
       (await (getAccessToken rt e lg) (\<lambda>token.
        await (js_fetch rt ''GET'' (paypal_baseUrl e @ ''/v2/checkout/orders/'' @ sessionId))
          (\<lambda>response.
        if \<not> resp_ok response
        then reject (Error (''Failed to get PayPal order: '' @ resp_statusText response))
        else
        await (response_json response) (\<lambda>data.
        resolve (Some data)))))
       (\<lambda>error.
        await (logger_log lg rt ERROR ''Failed to get PayPal order'') (\<lambda>_.
        reject error))"

definition PayPal_createSubscription ::
  "runtime \<Rightarrow> env \<Rightarrow> logger \<Rightarrow> js_object \<Rightarrow> js_object io" where
  "PayPal_createSubscription rt e lg payload =
     try_catch
       (await (getAccessToken rt e lg) (\<lambda>token.
        await (js_fetch rt ''POST'' (paypal_baseUrl e @ ''/v1/billing/subscriptions''))
          (\<lambda>response.
        if \<not> resp_ok response
        then reject (Error (''PayPal subscription error: '' @ resp_text response))
        else
        await (response_json response) (\<lambda>data.
        await (lift (getProp (Some data) ''links'')) (\<lambda>links.
        await (lift (links_find links)) (\<lambda>approvalLink.
        await (lift (getProp (Some data) ''id'')) (\<lambda>sid.
        await (logger_log lg rt INFO ''PayPal subscription created'') (\<lambda>_.
        resolve [(''subscriptionId'', sid),
                 (''checkoutUrl'', js_or (optChain approvalLink ''href'') (Some (JStr []))),
                 (''provider'', Some (JStr ''paypal''))]))))))))
       (\<lambda>error.
        await (logger_log lg rt ERROR ''Failed to create PayPal subscription'') (\<lambda>_.
        reject error))"

definition PayPal_cancelSubscription ::
  "runtime \<Rightarrow> env \<Rightarrow> logger \<Rightarrow> string \<Rightarrow> jsval io" where
  "PayPal_cancelSubscription rt e lg subscriptionId =
     try_catch
       (await (getAccessToken rt e lg) (\<lambda>token.
        await (js_fetch rt ''POST''
                 (paypal_baseUrl e @ ''/v1/billing/subscriptions/'' @ subscriptionId
                    @ ''/cancel''))
          (\<lambda>response.
        if \<not> resp_ok response
        then reject (Error (''Failed to cancel PayPal subscription: ''
                             @ resp_statusText response))
        else
        await (logger_log lg rt INFO ''PayPal subscription cancelled'') (\<lambda>_.
        resolve (Some (stringify [(''status'', Some (JStr ''cancelled'')),
                                  (''subscriptionId'', Some (JStr subscriptionId))]))))))
       (\<lambda>error.
        await (logger_log lg rt ERROR ''Failed to cancel PayPal subscription'') (\<lambda>_.
        reject error))"

section \<open>adapters/stripe.js and method dispatch\<close>

fun createCheckoutSession ::
  "adapter \<Rightarrow> runtime \<Rightarrow> env \<Rightarrow> logger \<Rightarrow> js_object \<Rightarrow> js_object io" where
  "createCheckoutSession PaddleAdapter rt e lg payload =
     Paddle_createCheckoutSession rt e lg payload"
| "createCheckoutSession PayPalAdapter rt e lg payload =
     PayPal_createCheckoutSession rt e lg payload"
| "createCheckoutSession StripeAdapter rt e lg payload =
     reject (Error ''Stripe adapter not yet implemented. Coming soon!'')"

fun verifyWebhook ::
  "adapter \<Rightarrow> runtime \<Rightarrow> env \<Rightarrow> logger \<Rightarrow> request \<Rightarrow> js_object io" where
  "verifyWebhook PaddleAdapter rt e lg req = Paddle_verifyWebhook rt e lg req"
| "verifyWebhook PayPalAdapter rt e lg req = PayPal_verifyWebhook rt e lg req"
| "verifyWebhook StripeAdapter rt e lg req =
     reject (Error ''Stripe webhook verification not yet implemented. Coming soon!'')"

fun adapter_getSession ::
  "adapter \<Rightarrow> runtime \<Rightarrow> env \<Rightarrow> logger \<Rightarrow> string \<Rightarrow> jsval io" where
  "adapter_getSession PaddleAdapter rt e lg sessionId = Paddle_getSession rt e lg sessionId"
| "adapter_getSession PayPalAdapter rt e lg sessionId = PayPal_getSession rt e lg sessionId"
| "adapter_getSession StripeAdapter rt e lg sessionId =
     reject (Error ''Stripe session retrieval not yet implemented. Coming soon!'')"

fun createSubscription ::
  "adapter \<Rightarrow> runtime \<Rightarrow> env \<Rightarrow> logger \<Rightarrow> js_object \<Rightarrow> js_object io" where
  "createSubscription PaddleAdapter rt e lg payload = Paddle_createSubscription rt e lg payload"
| "createSubscription PayPalAdapter rt e lg payload = PayPal_createSubscription rt e lg payload"
| "createSubscription StripeAdapter rt e lg payload =
     reject (Error ''Stripe subscription creation not yet implemented. Coming soon!'')"

fun cancelSubscription ::
  "adapter \<Rightarrow> runtime \<Rightarrow> env \<Rightarrow> logger \<Rightarrow> string \<Rightarrow> jsval io" where
  "cancelSubscription PaddleAdapter rt e lg subscriptionId =
     Paddle_cancelSubscription rt e lg subscriptionId"
| "cancelSubscription PayPalAdapter rt e lg subscriptionId =
     PayPal_cancelSubscription rt e lg subscriptionId"
| "cancelSubscription StripeAdapter rt e lg subscriptionId =
     reject (Error ''Stripe subscription cancellation not yet implemented. Coming soon!'')"

section \<open>router.js\<close>

definition backend_base :: "env \<Rightarrow> string" where
  "backend_base e = template (map_option JStr (INTERNAL_BACKEND_URL e))"

definition backend_url :: "env \<Rightarrow> string" where
  "backend_url e = backend_base e @ ''/internal/payment/notify''"

text \<open>\<^verbatim>\<open>const { provider, ... } = body\<close> throws on \<^verbatim>\<open>null\<close> and on nothing else.\<close>

definition destructure :: "json \<Rightarrow> js_error + json" where
  "destructure body =
     (if body = JNull then Inl (TypeError ''Cannot destructure property of null'')
      else Inr body)"

text \<open>The object \<^verbatim>\<open>handleCheckout\<close> passes to \<^verbatim>\<open>adapter.createCheckoutSession\<close>.\<close>

definition checkout_payload :: "env \<Rightarrow> json \<Rightarrow> js_object" where
  "checkout_payload e body =
     [(''userId'', get_member body ''userId''), (''email'', get_member body ''email''),
      (''amount'', get_member body ''amount''),
      (''currency'', js_or (get_member body ''currency'') (Some (JStr ''USD''))),
      (''productName'', get_member body ''productName''),
      (''successUrl'',
         js_or (get_member body ''successUrl'')
           (Some (JStr (backend_base e @ ''/payment/success'')))),
      (''cancelUrl'',
         js_or (get_member body ''cancelUrl'')
           (Some (JStr (backend_base e @ ''/payment/cancel'')))),
      (''metadata'', get_member body ''metadata'')]"

definition handleCheckout :: "runtime \<Rightarrow> env \<Rightarrow> logger \<Rightarrow> request \<Rightarrow> http_response io" where
  "handleCheckout rt e lg req =
     try_catch
       (await (request_json req) (\<lambda>parsed.
        await (lift (destructure parsed)) (\<lambda>body.
        let provider = get_member body ''provider'';
            userId = get_member body ''userId'';
            email = get_member body ''email'';
            amount = get_member body ''amount'';
            currency = get_member body ''currency'';
            productName = get_member body ''productName''
        in
        if \<not> truthy provider \<or> \<not> truthy userId \<or> \<not> truthy email \<or> \<not> truthy amount
           \<or> \<not> truthy productName
        then resolve (errorResponse ''Missing required fields'' 400)
        else
        await (lift (getProviderAdapter provider)) (\<lambda>adapter.
        await (createCheckoutSession adapter rt e lg (checkout_payload e body)) (\<lambda>session.
        await (storeSession (obj_prop session ''sessionId'')
                 [(''userId'', userId), (''provider'', provider), (''email'', email),
                  (''amount'', amount), (''currency'', currency),
                  (''productName'', productName),
                  (''createdAt'', Some (JStr (now_iso rt)))] None) (\<lambda>_.
        await (incrementCounter (''checkout:'' @ template provider @ '':'' @ today rt) None)
          (\<lambda>_.
        await (logger_log lg rt INFO ''Checkout session created'') (\<lambda>_.
        resolve (successResponse (Some (stringify session))
                   ''Checkout session created successfully'')))))))))
       (\<lambda>error.
        await (logger_log lg rt ERROR ''Checkout error'') (\<lambda>_.
        resolve (errorResponse (message error) 500)))"

definition received :: jsval where
  "received = Some (JObj [(''received'', JBool True)])"

text \<open>
  The inner \<^verbatim>\<open>try\<close> block of \<^verbatim>\<open>handleWebhook\<close>: the POST to the internal backend. A
  response that is not \<^verbatim>\<open>ok\<close> is logged as a warning, a rejected \<^verbatim>\<open>fetch\<close> is caught and
  logged as an error; neither is thrown on.
\<close>

definition notifyBackend :: "runtime \<Rightarrow> env \<Rightarrow> logger \<Rightarrow> unit io" where
  "notifyBackend rt e lg =
     try_catch
       (await (js_fetch rt ''POST'' (backend_url e)) (\<lambda>backendResponse.
        if \<not> resp_ok backendResponse
        then logger_log lg rt WARN ''Backend notification failed''
        else resolve ()))
       (\<lambda>backendError. logger_log lg rt ERROR ''Failed to notify backend'')"

definition handleWebhook ::
  "runtime \<Rightarrow> env \<Rightarrow> logger \<Rightarrow> request \<Rightarrow> string \<Rightarrow> http_response io" where
  "handleWebhook rt e lg req provider =
     try_catch
       (await (lift (getProviderAdapter (Some (JStr provider)))) (\<lambda>adapter.
        await (verifyWebhook adapter rt e lg req) (\<lambda>event.
        await (isEventProcessed provider (obj_prop event ''eventId'')) (\<lambda>alreadyProcessed.
        if alreadyProcessed
        then await (logger_log lg rt INFO ''Event already processed (idempotent)'') (\<lambda>_.
             resolve (successResponse received ''Event already processed''))
        else
        await (markEventProcessed rt provider (obj_prop event ''eventId'')
                 [(''eventType'', obj_prop event ''eventType''),
                  (''processedAt'', Some (JStr (now_iso rt)))] None) (\<lambda>_.
        await (notifyBackend rt e lg) (\<lambda>_.
        await (incrementCounter
                 (''webhook:'' @ provider @ '':'' @ template (obj_prop event ''eventType'')
                    @ '':'' @ today rt) None) (\<lambda>_.
        await (logger_log lg rt INFO ''Webhook processed successfully'') (\<lambda>_.
        resolve (successResponse received ''Webhook processed successfully'')))))))))
       (\<lambda>error.
        await (logger_log lg rt ERROR ''Webhook processing error'') (\<lambda>_.
        resolve (errorResponse (message error) 400)))"

definition handleReceipt ::
  "runtime \<Rightarrow> env \<Rightarrow> logger \<Rightarrow> string \<Rightarrow> http_response io" where
  "handleReceipt rt e lg sessionId =
     try_catch
       (await (getSession (Some (JStr sessionId))) (\<lambda>session.
        if \<not> truthy (Some session)
        then resolve (errorResponse ''Session not found'' 404)
        else
        await (lift (getProviderAdapter (get_member session ''provider''))) (\<lambda>adapter.
        await (adapter_getSession adapter rt e lg sessionId) (\<lambda>providerSession.
        await (logger_log lg rt INFO ''Receipt retrieved'') (\<lambda>_.
        resolve (successResponse
                   (Some (stringify [(''session'', Some session),
                                     (''providerDetails'', providerSession)]))
                   ''Receipt retrieved successfully''))))))
       (\<lambda>error.
        await (logger_log lg rt ERROR ''Receipt retrieval error'') (\<lambda>_.
        resolve (errorResponse (message error) 500)))"

text \<open>The object \<^verbatim>\<open>handleSubscriptionCreate\<close> passes to \<^verbatim>\<open>adapter.createSubscription\<close>.\<close>

definition subscription_payload :: "env \<Rightarrow> json \<Rightarrow> js_object" where
  "subscription_payload e body =
     [(''userId'', get_member body ''userId''), (''email'', get_member body ''email''),
      (''planId'', get_member body ''planId''), (''priceId'', get_member body ''priceId''),
      (''successUrl'',
         js_or (get_member body ''successUrl'')
           (Some (JStr (backend_base e @ ''/payment/success'')))),
      (''cancelUrl'',
         js_or (get_member body ''cancelUrl'')
           (Some (JStr (backend_base e @ ''/payment/cancel''))))]"

definition handleSubscriptionCreate ::
  "runtime \<Rightarrow> env \<Rightarrow> logger \<Rightarrow> request \<Rightarrow> http_response io" where
  "handleSubscriptionCreate rt e lg req =
     try_catch
       (await (request_json req) (\<lambda>parsed.
        await (lift (destructure parsed)) (\<lambda>body.
        let provider = get_member body ''provider'';
            userId = get_member body ''userId'';
            email = get_member body ''email'';
            planId = get_member body ''planId'';
            priceId = get_member body ''priceId''
        in
        if \<not> truthy provider \<or> \<not> truthy userId \<or> \<not> truthy email
           \<or> (\<not> truthy planId \<and> \<not> truthy priceId)
        then resolve (errorResponse ''Missing required fields'' 400)
        else
        await (lift (getProviderAdapter provider)) (\<lambda>adapter.
        await (createSubscription adapter rt e lg (subscription_payload e body))
          (\<lambda>subscription.
        await (storeSession (obj_prop subscription ''subscriptionId'')
                 [(''userId'', userId), (''provider'', provider), (''email'', email),
                  (''type'', Some (JStr ''subscription'')),
                  (''planId'', js_or planId priceId),
                  (''createdAt'', Some (JStr (now_iso rt)))] (Some (86400 * 30))) (\<lambda>_.
        await (logger_log lg rt INFO ''Subscription created'') (\<lambda>_.
        resolve (successResponse (Some (stringify subscription))
                   ''Subscription created successfully''))))))))
       (\<lambda>error.
        await (logger_log lg rt ERROR ''Subscription creation error'') (\<lambda>_.
        resolve (errorResponse (message error) 500)))"

definition handleSubscriptionCancel ::
  "runtime \<Rightarrow> env \<Rightarrow> logger \<Rightarrow> string \<Rightarrow> http_response io" where
  "handleSubscriptionCancel rt e lg subscriptionId =
     try_catch
       (await (getSession (Some (JStr subscriptionId))) (\<lambda>subscription.
        if \<not> truthy (Some subscription)
        then resolve (errorResponse ''Subscription not found'' 404)
        else
        await (lift (getProviderAdapter (get_member subscription ''provider''))) (\<lambda>adapter.
        await (cancelSubscription adapter rt e lg subscriptionId) (\<lambda>result.
        await (logger_log lg rt INFO ''Subscription cancelled'') (\<lambda>_.
        resolve (successResponse result ''Subscription cancelled successfully''))))))
       (\<lambda>error.
        await (logger_log lg rt ERROR ''Subscription cancellation error'') (\<lambda>_.
        resolve (errorResponse (message error) 500)))"

section \<open>Observations on a run\<close>

text \<open>The notions the theorems are stated with: what a trace contains, what an
  adapter call may do to the world, when an upstream call counts as failed.\<close>

definition log_line :: "logger \<Rightarrow> log_level \<Rightarrow> string \<Rightarrow> effect list" where
  "log_line lg lvl msg = (if LOG_LEVELS lvl < minLevel lg then [] else [ConsoleLog lvl msg])"

definition is_backend_call :: "env \<Rightarrow> effect \<Rightarrow> bool" where
  "is_backend_call e x = (x = Fetch ''POST'' (backend_url e))"

definition backend_calls :: "env \<Rightarrow> effect list \<Rightarrow> nat" where
  "backend_calls e tr = length (filter (is_backend_call e) tr)"

fun touches_ledger :: "effect \<Rightarrow> bool" where
  "touches_ledger (KvGet ns k) = (ns = EVENTS_kv)"
| "touches_ledger (KvPut ns k t) = (ns = EVENTS_kv)"
| "touches_ledger (Fetch m u) = False"
| "touches_ledger (ConsoleLog l s) = False"

fun is_kv_put :: "effect \<Rightarrow> bool" where
  "is_kv_put (KvPut ns k t) = True"
| "is_kv_put (KvGet ns k) = False"
| "is_kv_put (Fetch m u) = False"
| "is_kv_put (ConsoleLog l s) = False"

fun touches_metrics :: "effect \<Rightarrow> bool" where
  "touches_metrics (KvGet ns k) = (ns = METRICS_kv)"
| "touches_metrics (KvPut ns k t) = (ns = METRICS_kv)"
| "touches_metrics (Fetch m u) = False"
| "touches_metrics (ConsoleLog l s) = False"

text \<open>What an adapter method does: log lines, requests to the processor, and the
  logger reading its error counter.\<close>

fun adapter_effect :: "env \<Rightarrow> runtime \<Rightarrow> effect \<Rightarrow> bool" where
  "adapter_effect e rt (KvGet ns k) = (ns = METRICS_kv \<and> k = error_metric_key rt None)"
| "adapter_effect e rt (KvPut ns k t) = False"
| "adapter_effect e rt (Fetch m u) = (u \<noteq> backend_url e)"
| "adapter_effect e rt (ConsoleLog l s) = True"

definition ext :: "env \<Rightarrow> runtime \<Rightarrow> world \<Rightarrow> world \<Rightarrow> bool" where
  "ext e rt w w' =
     (SESSIONS w' = SESSIONS w \<and> EVENTS w' = EVENTS w \<and> METRICS w' = METRICS w
      \<and> (\<exists>tr. trace w' = trace w @ tr \<and> list_all (adapter_effect e rt) tr)
      \<and> (\<exists>ps. pending w' = pending w @ ps
               \<and> list_all (\<lambda>p. fst p = error_metric_key rt None) ps))"

definition adapter_op :: "env \<Rightarrow> runtime \<Rightarrow> 'a io \<Rightarrow> bool" where
  "adapter_op e rt m =
     (\<forall>w. ext e rt w (snd (m w)) \<and> (isl (fst (m w)) \<or> pending (snd (m w)) = pending w))"

definition fails :: "'a io \<Rightarrow> bool" where
  "fails m = (\<forall>w. isl (fst (m w)))"

definition returns :: "'a io \<Rightarrow> ('a \<Rightarrow> bool) \<Rightarrow> bool" where
  "returns m P = (\<forall>w x w'. m w = (Inr x, w') \<longrightarrow> P x)"

definition upstream_failed :: "js_error + upstream \<Rightarrow> bool" where
  "upstream_failed r = (case r of Inl err \<Rightarrow> True | Inr resp \<Rightarrow> \<not> resp_ok resp)"

text \<open>The event id an adapter reads from the request body.\<close>

fun event_id_of :: "adapter \<Rightarrow> request \<Rightarrow> jsval" where
  "event_id_of PaddleAdapter req =
     (case body_json req of None \<Rightarrow> None | Some j \<Rightarrow> get_member j ''event_id'')"
| "event_id_of PayPalAdapter req =
     (case body_json req of None \<Rightarrow> None | Some j \<Rightarrow> get_member j ''id'')"
| "event_id_of StripeAdapter req = None"

text \<open>The requests each adapter method sends to its processor, in order (method and
  URL, as the source builds them). Stripe's methods throw before sending anything;
  Paddle verifies webhooks locally.\<close>

datatype operation =
    Checkout | GetSession string | Subscribe | Cancel string | VerifyWebhook

fun upstream_calls :: "env \<Rightarrow> adapter \<Rightarrow> operation \<Rightarrow> (string \<times> string) list" where
  "upstream_calls e PaddleAdapter Checkout = [(''POST'', paddle_baseUrl e @ ''/transactions'')]"
| "upstream_calls e PaddleAdapter (GetSession sessionId) =
     [(''GET'', paddle_baseUrl e @ ''/transactions/'' @ sessionId)]"
| "upstream_calls e PaddleAdapter Subscribe = [(''POST'', paddle_baseUrl e @ ''/subscriptions'')]"
| "upstream_calls e PaddleAdapter (Cancel subscriptionId) =
     [(''POST'', paddle_baseUrl e @ ''/subscriptions/'' @ subscriptionId @ ''/cancel'')]"
| "upstream_calls e PaddleAdapter VerifyWebhook = []"
| "upstream_calls e PayPalAdapter Checkout =
     [(''POST'', paypal_baseUrl e @ ''/v1/oauth2/token''),
      (''POST'', paypal_baseUrl e @ ''/v2/checkout/orders'')]"
| "upstream_calls e PayPalAdapter (GetSession sessionId) =
     [(''POST'', paypal_baseUrl e @ ''/v1/oauth2/token''),
      (''GET'', paypal_baseUrl e @ ''/v2/checkout/orders/'' @ sessionId)]"
| "upstream_calls e PayPalAdapter Subscribe =
     [(''POST'', paypal_baseUrl e @ ''/v1/oauth2/token''),
      (''POST'', paypal_baseUrl e @ ''/v1/billing/subscriptions'')]"
| "upstream_calls e PayPalAdapter (Cancel subscriptionId) =
     [(''POST'', paypal_baseUrl e @ ''/v1/oauth2/token''),
      (''POST'', paypal_baseUrl e @ ''/v1/billing/subscriptions/'' @ subscriptionId
                  @ ''/cancel'')]"
| "upstream_calls e PayPalAdapter VerifyWebhook =
     [(''POST'', paypal_baseUrl e @ ''/v1/oauth2/token''),
      (''POST'', paypal_baseUrl e @ ''/v1/notifications/verify-webhook-signature'')]"
| "upstream_calls e StripeAdapter operation = []"


section \<open>Concrete inputs\<close>

text \<open>A Worker with nothing stored, a network that is down, and a checkout body that
  names only its provider (the body of the repository's first checkout test).\<close>

definition empty_world :: world where
  "empty_world = \<lparr>SESSIONS = Map.empty, EVENTS = Map.empty, METRICS = Map.empty,
                   pending = [], trace = []\<rparr>"

definition demo_env :: env where
  "demo_env = \<lparr>INTERNAL_BACKEND_URL = Some ''https://test-backend.com'',
                PADDLE_WEBHOOK_SECRET = ''test_paddle_secret'',
                PADDLE_SANDBOX = None, PAYPAL_SANDBOX = None, LOG_LEVEL = None\<rparr>"

definition offline :: runtime where
  "offline = \<lparr>fetch = (\<lambda>method url. Inl (TypeError ''fetch failed'')),
               hmacSha256Hex = (\<lambda>secret msg. Some ''ab12''),
               now_iso = ''2025-01-01T00:00:00.000Z'', now_ms = 1735689600000\<rparr>"

definition json_request :: "json \<Rightarrow> request" where
  "json_request j = \<lparr>headers = Map.empty, body_text = ''(body)'', body_json = Some j\<rparr>"

definition provider_only :: "(string \<times> json) list" where
  "provider_only = [(''provider'', JStr ''paddle'')]"

definition zero_amount :: "(string \<times> json) list" where
  "zero_amount = [(''provider'', JStr ''paddle''), (''userId'', JStr ''user_123''),
                  (''email'', JStr ''test@example.com''), (''amount'', JNum 0),
                  (''productName'', JStr ''Test Product'')]"

text \<open>A Paddle webhook whose \<^verbatim>\<open>h1\<close> is the digest the runtime computes, with a
  timestamp of one second past the epoch; the same body with no signature header.\<close>

definition paddle_event :: json where
  "paddle_event = JObj [(''event_id'', JStr ''evt_123''),
                        (''event_type'', JStr ''transaction.completed'')]"

definition signed_request :: request where
  "signed_request = \<lparr>headers = [''paddle-signature'' \<mapsto> ''ts=1;h1=ab12''],
                      body_text = ''(body)'', body_json = Some paddle_event\<rparr>"

definition unsigned_request :: request where
  "unsigned_request = \<lparr>headers = Map.empty, body_text = ''(body)'',
                        body_json = Some paddle_event\<rparr>"

text \<open>The runtime of \<open>offline\<close> with a backend (and every other host) that answers 200.\<close>

definition backend_up :: runtime where
  "backend_up = offline\<lparr>fetch := (\<lambda>method url. Inr \<lparr>resp_ok = True, resp_statusText = ''OK'',
                                                      resp_text = ''{}'', resp_json = Some (JObj [])\<rparr>)\<rparr>"

definition paddle_event_object :: js_object where
  "paddle_event_object = [(''eventId'', Some (JStr ''evt_123'')),
                          (''eventType'', Some (JStr ''transaction.completed'')),
                          (''data'', None), (''rawPayload'', Some paddle_event)]"

text \<open>The checkout and subscription bodies of the tests that name an unknown provider.\<close>

definition unsupported_checkout :: json where
  "unsupported_checkout =
     JObj [(''provider'', JStr ''unsupported''), (''userId'', JStr ''user_123''),
           (''email'', JStr ''test@example.com''), (''amount'', JNum 1000),
           (''productName'', JStr ''Test Product'')]"

definition unsupported_subscription :: json where
  "unsupported_subscription =
     JObj [(''provider'', JStr ''unsupported''), (''userId'', JStr ''user_123''),
           (''email'', JStr ''test@example.com''), (''planId'', JStr ''plan_1'')]"

text \<open>PayPal issues a token and answers every other request with a 500; a PayPal
  webhook carrying its transmission headers.\<close>

definition paypal_down :: runtime where
  "paypal_down = offline\<lparr>fetch := (\<lambda>method url.
      if url = ''https://api-m.paypal.com/v1/oauth2/token''
      then Inr \<lparr>resp_ok = True, resp_statusText = ''OK'', resp_text = ''(token)'',
                resp_json = Some (JObj [(''access_token'', JStr ''test_token''),
                                        (''expires_in'', JNum 3600)])\<rparr>
      else Inr \<lparr>resp_ok = False, resp_statusText = ''Internal Server Error'',
                resp_text = ''(error)'', resp_json = None\<rparr>)\<rparr>"

definition paypal_request :: request where
  "paypal_request =
     \<lparr>headers = [''paypal-transmission-id'' \<mapsto> ''tid_1'',
                 ''paypal-transmission-sig'' \<mapsto> ''sig_1''],
      body_text = ''(body)'',
      body_json = Some (JObj [(''id'', JStr ''WH-1''),
                              (''event_type'', JStr ''PAYMENT.CAPTURE.COMPLETED'')])\<rparr>"

text \<open>The checkout body of the tests, and Paddle's answer to it there.\<close>

definition paddle_checkout :: json where
  "paddle_checkout =
     JObj [(''provider'', JStr ''paddle''), (''userId'', JStr ''user_123''),
           (''email'', JStr ''test@example.com''), (''amount'', JNum 1000),
           (''productName'', JStr ''Test Product'')]"

definition paddle_up :: runtime where
  "paddle_up = offline\<lparr>fetch := (\<lambda>method url.
      Inr \<lparr>resp_ok = True, resp_statusText = ''OK'', resp_text = ''(transaction)'',
           resp_json = Some (JObj [(''data'',
             JObj [(''id'', JStr ''txn_123''),
                   (''checkout'', JObj [(''url'', JStr ''https://paddle.com/checkout/123'')])])])\<rparr>)\<rparr>"

definition paddle_transaction :: json where
  "paddle_transaction =
     JObj [(''id'', JStr ''txn_123''),
           (''checkout'', JObj [(''url'', JStr ''https://paddle.com/checkout/123'')])]"

definition paddle_session :: js_object where
  "paddle_session = [(''sessionId'', Some (JStr ''txn_123'')),
                     (''checkoutUrl'', Some (JStr ''https://paddle.com/checkout/123'')),
                     (''provider'', Some (JStr ''paddle''))]"


section \<open>Facts about the model\<close>

subsection \<open>Promises\<close>

lemma await_resolve [simp]: "await (resolve x) f = f x"
  by (simp add: await_def resolve_def)

lemma await_reject [simp]: "await (reject err) f = reject err"
  by (simp add: await_def reject_def fun_eq_iff)

lemma await_lift_Inr [simp]: "await (lift (Inr x)) f = f x"
  by (simp add: await_def lift_def)

lemma await_lift_Inl [simp]: "await (lift (Inl err)) f = reject err"
  by (simp add: await_def lift_def reject_def fun_eq_iff)

lemma try_catch_resolve [simp]: "try_catch (resolve x) h = resolve x"
  by (simp add: try_catch_def resolve_def fun_eq_iff)

lemma try_catch_reject [simp]: "try_catch (reject err) h = h err"
  by (simp add: try_catch_def reject_def)

lemma resolve_apply [simp]: "resolve x w = (Inr x, w)"
  by (simp add: resolve_def)

lemma reject_apply [simp]: "reject err w = (Inl err, w)"
  by (simp add: reject_def)

lemma lift_apply [simp]: "lift r w = (r, w)"
  by (simp add: lift_def)

lemma await_Pair_Inr [simp]: "await (Pair (Inr x)) f = f x"
  by (simp add: await_def)

lemma await_Pair_Inl [simp]: "await (Pair (Inl err)) f = Pair (Inl err)"
  by (simp add: await_def fun_eq_iff)

lemma try_catch_Pair_Inr [simp]: "try_catch (Pair (Inr x)) h = Pair (Inr x)"
  by (simp add: try_catch_def fun_eq_iff)

lemma try_catch_Pair_Inl [simp]: "try_catch (Pair (Inl err)) h = h err"
  by (simp add: try_catch_def)

lemma await_Inr: "m w = (Inr x, w') \<Longrightarrow> await m f w = f x w'"
  by (simp add: await_def)

lemma await_Inl: "m w = (Inl err, w') \<Longrightarrow> await m f w = (Inl err, w')"
  by (simp add: await_def)

lemma try_catch_Inr: "m w = (Inr x, w') \<Longrightarrow> try_catch m h w = (Inr x, w')"
  by (simp add: try_catch_def)

lemma try_catch_Inl: "m w = (Inl err, w') \<Longrightarrow> try_catch m h w = h err w'"
  by (simp add: try_catch_def)

lemma request_json_Some [simp]: "body_json req = Some j \<Longrightarrow> request_json req = resolve j"
  by (simp add: request_json_def)

subsection \<open>The logger\<close>

lemma logger_log_quiet:
  "lvl \<noteq> ERROR \<Longrightarrow>
   logger_log lg rt lvl msg w = (Inr (), w\<lparr>trace := trace w @ log_line lg lvl msg\<rparr>)"
  by (simp add: logger_log_def log_line_def emit_def await_def)

lemma logger_log_error:
  "logger_log lg rt ERROR msg w =
     (Inr (),
      if 3 < minLevel lg then w
      else if metrics_bound lg
      then w\<lparr>pending := pending w
                 @ [(error_metric_key rt None, counter_next (METRICS w (error_metric_key rt None)))],
             trace := trace w @ [ConsoleLog ERROR msg, KvGet METRICS_kv (error_metric_key rt None)]\<rparr>
      else w\<lparr>trace := trace w @ [ConsoleLog ERROR msg]\<rparr>)"
  by (simp add: logger_log_def emit_def await_def incrementErrorMetric_def Let_def)

lemma logger_log_fst [simp]: "fst (logger_log lg rt lvl msg w) = Inr ()"
  by (cases lvl) (simp_all add: logger_log_quiet logger_log_error)

subsection \<open>What an adapter method leaves behind\<close>

text \<open>An adapter method keeps the three stores, adds to the trace only log lines, requests
  to the processor and reads of the error counter, and leaves a counter write pending
  only when it throws.\<close>

lemma ext_refl [simp]: "ext e rt w w"
  by (simp add: ext_def)

lemma ext_trans: "ext e rt w w1 \<Longrightarrow> ext e rt w1 w2 \<Longrightarrow> ext e rt w w2"
  by (auto simp add: ext_def)

lemma ext_logger_log: "ext e rt w (snd (logger_log lg rt lvl msg w))"
  by (cases lvl) (simp_all add: logger_log_quiet logger_log_error ext_def log_line_def)

lemma adapter_op_resolve [intro!]: "adapter_op e rt (resolve x)"
  by (simp add: adapter_op_def)

lemma adapter_op_reject [intro!]: "adapter_op e rt (reject err)"
  by (simp add: adapter_op_def)

lemma adapter_op_lift [intro!]: "adapter_op e rt (lift r)"
  by (simp add: adapter_op_def)

lemma adapter_op_await [intro!]:
  assumes "adapter_op e rt m" and "\<And>x. adapter_op e rt (f x)"
  shows "adapter_op e rt (await m f)"
  unfolding adapter_op_def
proof (intro allI)
  fix w
  obtain r w1 where m: "m w = (r, w1)" by (cases "m w")
  have m1: "ext e rt w w1" and m2: "isl r \<or> pending w1 = pending w"
    using assms(1) m by (auto simp add: adapter_op_def dest: spec [of _ w])
  show "ext e rt w (snd (await m f w))
        \<and> (isl (fst (await m f w)) \<or> pending (snd (await m f w)) = pending w)"
  proof (cases r)
    case (Inl err)
    then show ?thesis using m m1 by (simp add: await_def)
  next
    case (Inr x)
    have f1: "ext e rt w1 (snd (f x w1))"
      and f2: "isl (fst (f x w1)) \<or> pending (snd (f x w1)) = pending w1"
      using assms(2) [of x] by (auto simp add: adapter_op_def dest: spec [of _ w1])
    show ?thesis using m Inr m1 m2 f1 f2 by (auto simp add: await_def intro: ext_trans)
  qed
qed

lemma adapter_op_if [intro!]:
  "adapter_op e rt a \<Longrightarrow> adapter_op e rt b \<Longrightarrow> adapter_op e rt (if c then a else b)"
  by simp

lemma adapter_op_info [intro!]: "lvl \<noteq> ERROR \<Longrightarrow> adapter_op e rt (logger_log lg rt lvl msg)"
  using ext_logger_log [of e rt _ lg lvl msg]
  by (simp add: adapter_op_def logger_log_quiet)

lemma adapter_op_rethrow [intro!]:
  assumes "adapter_op e rt m"
  shows "adapter_op e rt
           (try_catch m (\<lambda>error. await (logger_log lg rt ERROR msg) (\<lambda>_. reject error)))"
  unfolding adapter_op_def
proof (intro allI)
  fix w
  let ?h = "\<lambda>error. await (logger_log lg rt ERROR msg) (\<lambda>_. reject error)"
  obtain r w1 where m: "m w = (r, w1)" by (cases "m w")
  have m1: "ext e rt w w1" and m2: "isl r \<or> pending w1 = pending w"
    using assms m by (auto simp add: adapter_op_def dest: spec [of _ w])
  show "ext e rt w (snd (try_catch m ?h w))
        \<and> (isl (fst (try_catch m ?h w)) \<or> pending (snd (try_catch m ?h w)) = pending w)"
  proof (cases r)
    case (Inl err)
    have h: "?h err w1 = (Inl err, snd (logger_log lg rt ERROR msg w1))"
      by (simp add: await_def logger_log_error)
    show ?thesis
      using m Inl m1 ext_logger_log [of e rt w1 lg ERROR msg]
      by (auto simp add: try_catch_def h intro: ext_trans)
  next
    case (Inr x)
    then show ?thesis using m m1 m2 by (simp add: try_catch_def)
  qed
qed

lemma adapter_op_fetch [intro!]:
  "url \<noteq> backend_url e \<Longrightarrow> adapter_op e rt (js_fetch rt method url)"
  by (cases "fetch rt method url")
     (simp_all add: adapter_op_def js_fetch_def emit_def await_def ext_def)

lemma adapter_op_response_json [intro!]: "adapter_op e rt (response_json r)"
  by (cases "resp_json r") (simp_all add: response_json_def adapter_op_def)

lemma adapter_op_request_json [intro!]: "adapter_op e rt (request_json r)"
  by (cases "body_json r") (simp_all add: request_json_def adapter_op_def)

lemma backend_url_not_token: "paypal_baseUrl e @ ''/v1/oauth2/token'' \<noteq> backend_url e'"
proof
  assume "paypal_baseUrl e @ ''/v1/oauth2/token'' = backend_url e'"
  then have "last (paypal_baseUrl e @ ''/v1/oauth2/token'') = last (backend_url e')" by simp
  then show False by (simp add: backend_url_def)
qed

lemma backend_url_not_verify:
  "paypal_baseUrl e @ ''/v1/notifications/verify-webhook-signature'' \<noteq> backend_url e'"
proof
  assume "paypal_baseUrl e @ ''/v1/notifications/verify-webhook-signature'' = backend_url e'"
  then have "last (paypal_baseUrl e @ ''/v1/notifications/verify-webhook-signature'')
             = last (backend_url e')" by simp
  then show False by (simp add: backend_url_def)
qed

lemma adapter_op_getAccessToken [intro!]: "adapter_op e rt (getAccessToken rt e lg)"
  unfolding getAccessToken_def
  by (intro adapter_op_rethrow adapter_op_await adapter_op_fetch adapter_op_if
        adapter_op_reject adapter_op_resolve adapter_op_lift adapter_op_response_json
        backend_url_not_token)

lemma adapter_op_verifyWebhook: "adapter_op e rt (verifyWebhook adapter rt e lg req)"
proof (cases adapter)
  case PaddleAdapter
  show ?thesis
    unfolding PaddleAdapter verifyWebhook.simps Paddle_verifyWebhook_def Let_def
    by (intro adapter_op_await adapter_op_if adapter_op_reject adapter_op_resolve
          adapter_op_lift adapter_op_request_json adapter_op_info) simp
next
  case PayPalAdapter
  show ?thesis
    unfolding PayPalAdapter verifyWebhook.simps PayPal_verifyWebhook_def Let_def
    by (intro adapter_op_rethrow adapter_op_await adapter_op_fetch adapter_op_if
          adapter_op_reject adapter_op_resolve adapter_op_lift adapter_op_response_json
          adapter_op_request_json adapter_op_info adapter_op_getAccessToken
          backend_url_not_verify) simp
next
  case StripeAdapter
  then show ?thesis by (simp add: adapter_op_reject)
qed

subsection \<open>What an adapter method returns\<close>

lemma returns_resolve [intro!]: "P x \<Longrightarrow> returns (resolve x) P"
  by (simp add: returns_def)

lemma returns_reject [intro!]: "returns (reject err) P"
  by (simp add: returns_def)

lemma returns_await [intro!]: "(\<And>x. returns (f x) P) \<Longrightarrow> returns (await m f) P"
  unfolding returns_def await_def
  by (fastforce split: prod.splits sum.splits)

lemma returns_await_lift [intro!]:
  "(\<And>x. r = Inr x \<Longrightarrow> returns (f x) P) \<Longrightarrow> returns (await (lift r) f) P"
  by (cases r) (auto simp add: returns_def)

lemma returns_if [intro!]:
  "returns a P \<Longrightarrow> returns b P \<Longrightarrow> returns (if c then a else b) P"
  by simp

lemma returns_rethrow [intro!]:
  "returns m P \<Longrightarrow>
   returns (try_catch m (\<lambda>error. await (logger_log lg rt ERROR msg) (\<lambda>_. reject error))) P"
  unfolding returns_def try_catch_def await_def
  by (fastforce simp add: logger_log_error split: prod.splits sum.splits)

lemma returns_request_json [intro!]:
  "(\<And>j. body_json req = Some j \<Longrightarrow> returns (f j) P) \<Longrightarrow> returns (await (request_json req) f) P"
  by (cases "body_json req") (auto simp add: request_json_def returns_def)

lemma returnsD: "returns m P \<Longrightarrow> m w = (Inr x, w') \<Longrightarrow> P x"
  by (auto simp add: returns_def)

lemma getProp_Some_Inr: "getProp (Some j) name = Inr x \<Longrightarrow> x = get_member j name"
  by (cases j) auto

lemma verifyWebhook_eventId:
  "returns (verifyWebhook adapter rt e lg req)
     (\<lambda>event. obj_prop event ''eventId'' = event_id_of adapter req)"
proof (cases adapter)
  case PaddleAdapter
  show ?thesis
    unfolding PaddleAdapter verifyWebhook.simps Paddle_verifyWebhook_def Let_def
    by (intro returns_if returns_reject returns_request_json returns_await_lift
          returns_await returns_resolve)
       (simp add: obj_prop_def getProp_Some_Inr)
next
  case PayPalAdapter
  show ?thesis
    unfolding PayPalAdapter verifyWebhook.simps PayPal_verifyWebhook_def Let_def
    by (intro returns_if returns_reject returns_request_json returns_rethrow
          returns_await_lift returns_await returns_resolve)
       (simp add: obj_prop_def getProp_Some_Inr)
next
  case StripeAdapter
  then show ?thesis by (simp add: returns_reject)
qed

lemma verifyWebhook_frame:
  assumes "verifyWebhook adapter rt e lg req w = (Inr event, wv)"
  shows "ext e rt w wv" and "pending wv = pending w"
    and "obj_prop event ''eventId'' = event_id_of adapter req"
  using adapter_op_verifyWebhook [of e rt adapter lg req] assms
    returnsD [OF verifyWebhook_eventId assms]
  by (auto simp add: adapter_op_def dest!: spec [of _ w])

subsection \<open>Traces\<close>

lemma adapter_effect_quiet:
  assumes "list_all (adapter_effect e rt) tr"
  shows "backend_calls e tr = 0" and "\<not> list_ex touches_ledger tr" and "\<not> list_ex is_kv_put tr"
    and "\<forall>x\<in>set tr. touches_metrics x \<longrightarrow> x = KvGet METRICS_kv (error_metric_key rt None)"
proof -
  have "\<forall>x\<in>set tr. adapter_effect e rt x" using assms by (simp add: list_all_iff)
  then have a: "\<And>x. x \<in> set tr \<Longrightarrow> \<not> is_backend_call e x \<and> \<not> touches_ledger x \<and> \<not> is_kv_put x
       \<and> (touches_metrics x \<longrightarrow> x = KvGet METRICS_kv (error_metric_key rt None))"
    subgoal for x by (cases x) (auto simp add: is_backend_call_def)
    done
  show "backend_calls e tr = 0" using a by (simp add: backend_calls_def filter_empty_conv)
  show "\<not> list_ex touches_ledger tr" using a by (simp add: list_ex_iff)
  show "\<not> list_ex is_kv_put tr" using a by (simp add: list_ex_iff)
  show "\<forall>x\<in>set tr. touches_metrics x \<longrightarrow> x = KvGet METRICS_kv (error_metric_key rt None)"
    using a by blast
qed

lemma backend_calls_append [simp]:
  "backend_calls e (xs @ ys) = backend_calls e xs + backend_calls e ys"
  by (simp add: backend_calls_def)

lemma backend_calls_Nil [simp]: "backend_calls e [] = 0"
  by (simp add: backend_calls_def)

lemma backend_calls_Cons [simp]:
  "backend_calls e (x # xs) = (if is_backend_call e x then 1 else 0) + backend_calls e xs"
  by (simp add: backend_calls_def)

lemma log_line_quiet [simp]:
  "backend_calls e (log_line lg lvl msg) = 0"
  "\<not> list_ex touches_ledger (log_line lg lvl msg)"
  "\<not> list_ex is_kv_put (log_line lg lvl msg)"
  "\<not> list_ex touches_metrics (log_line lg lvl msg)"
  by (simp_all add: log_line_def is_backend_call_def)

subsection \<open>The ways through the webhook handler\<close>

lemma notifyBackend_result:
  "\<exists>w' rest. notifyBackend rt e lg w = (Inr (), w')
     \<and> SESSIONS w' = SESSIONS w \<and> EVENTS w' = EVENTS w \<and> METRICS w' = METRICS w
     \<and> trace w' = trace w @ Fetch ''POST'' (backend_url e) # rest
     \<and> backend_calls e rest = 0 \<and> \<not> list_ex touches_ledger rest \<and> \<not> list_ex is_kv_put rest"
proof (cases "fetch rt ''POST'' (backend_url e)")
  case (Inl err)
  then show ?thesis
    by (simp add: notifyBackend_def js_fetch_def emit_def await_def try_catch_def
          logger_log_error is_backend_call_def)
next
  case (Inr r)
  then show ?thesis
    by (simp add: notifyBackend_def js_fetch_def emit_def await_def try_catch_def
          logger_log_quiet)
qed

lemma logger_log_eq: "logger_log lg rt lvl msg w = (Inr (), snd (logger_log lg rt lvl msg w))"
  by (metis logger_log_fst prod.collapse)

lemma handleWebhook_unsupported:
  assumes "getProviderAdapter (Some (JStr provider)) = Inl err"
  shows "handleWebhook rt e lg req provider w =
           (Inr (errorResponse (message err) 400),
            snd (logger_log lg rt ERROR ''Webhook processing error'' w))"
  using assms
  by (simp add: handleWebhook_def await_def logger_log_error del: getProviderAdapter.simps)

lemma handleWebhook_rejected:
  assumes "getProviderAdapter (Some (JStr provider)) = Inr adapter"
    and "verifyWebhook adapter rt e lg req w = (Inl err, wv)"
  shows "handleWebhook rt e lg req provider w =
           (Inr (errorResponse (message err) 400),
            snd (logger_log lg rt ERROR ''Webhook processing error'' wv))"
  using assms
  by (simp add: handleWebhook_def await_def try_catch_def logger_log_error
           del: getProviderAdapter.simps)

lemma handleWebhook_duplicate:
  assumes "getProviderAdapter (Some (JStr provider)) = Inr adapter"
    and v: "verifyWebhook adapter rt e lg req w = (Inr event, wv)"
    and "EVENTS w (event_key provider (event_id_of adapter req)) \<noteq> None"
  shows "handleWebhook rt e lg req provider w =
           (Inr (successResponse received ''Event already processed''),
            wv\<lparr>trace := trace wv @ KvGet EVENTS_kv (event_key provider (event_id_of adapter req))
                              # log_line lg INFO ''Event already processed (idempotent)''\<rparr>)"
proof -
  have "EVENTS wv = EVENTS w" and "obj_prop event ''eventId'' = event_id_of adapter req"
    using verifyWebhook_frame [OF v] by (simp_all add: ext_def)
  then show ?thesis
    using assms
    by (simp add: handleWebhook_def await_def try_catch_def isEventProcessed_def Let_def
          logger_log_quiet del: getProviderAdapter.simps)
qed

lemma handleWebhook_fresh:
  assumes "getProviderAdapter (Some (JStr provider)) = Inr adapter"
    and v: "verifyWebhook adapter rt e lg req w = (Inr event, wv)"
    and fresh: "EVENTS w (event_key provider (event_id_of adapter req)) = None"
  shows "\<exists>w' pre post.
           handleWebhook rt e lg req provider w =
             (Inr (successResponse received ''Webhook processed successfully''), w')
         \<and> EVENTS w' (event_key provider (event_id_of adapter req)) \<noteq> None
         \<and> trace w' = trace w @ pre
              @ [KvPut EVENTS_kv (event_key provider (event_id_of adapter req)) 604800,
                 Fetch ''POST'' (backend_url e)] @ post
         \<and> backend_calls e pre = 0 \<and> backend_calls e post = 0
         \<and> \<not> list_ex is_kv_put pre"
proof -
  let ?key = "event_key provider (event_id_of adapter req)"
  have ev: "EVENTS wv = EVENTS w" and id: "obj_prop event ''eventId'' = event_id_of adapter req"
    using verifyWebhook_frame [OF v] by (simp_all add: ext_def)
  obtain tr where tr: "trace wv = trace w @ tr" "list_all (adapter_effect e rt) tr"
    using verifyWebhook_frame(1) [OF v] by (auto simp add: ext_def)
  define w2 where "w2 = wv\<lparr>EVENTS := (EVENTS wv)(?key \<mapsto>
        (stringify [(''processed_at'', Some (JStr (now_iso rt))),
                    (''eventType'', obj_prop event ''eventType''),
                    (''processedAt'', Some (JStr (now_iso rt)))], 604800)),
       trace := trace wv @ [KvGet EVENTS_kv ?key, KvPut EVENTS_kv ?key 604800]\<rparr>"
  obtain w3 rest where n: "notifyBackend rt e lg w2 = (Inr (), w3)"
    and n1: "EVENTS w3 = EVENTS w2"
    and n2: "trace w3 = trace w2 @ Fetch ''POST'' (backend_url e) # rest"
    and n3: "backend_calls e rest = 0"
    using notifyBackend_result [of rt e lg w2] by blast
  let ?ck = "''webhook:'' @ provider @ '':'' @ template (obj_prop event ''eventType'')
               @ '':'' @ today rt"
  define w' where "w' = (snd (incrementCounter ?ck None w3))
                          \<lparr>trace := trace (snd (incrementCounter ?ck None w3))
                                     @ log_line lg INFO ''Webhook processed successfully''\<rparr>"
  have run: "handleWebhook rt e lg req provider w =
               (Inr (successResponse received ''Webhook processed successfully''), w')"
    using assms(1) v fresh ev id n [unfolded w2_def]
    by (simp add: handleWebhook_def await_def try_catch_def isEventProcessed_def
          markEventProcessed_def Let_def incrementCounter_def
          logger_log_quiet w'_def del: getProviderAdapter.simps)
  have ev': "EVENTS w' ?key \<noteq> None"
    by (simp add: w'_def incrementCounter_def Let_def n1 w2_def)
  have tr': "trace w' = trace w @ (tr @ [KvGet EVENTS_kv ?key])
               @ [KvPut EVENTS_kv ?key 604800, Fetch ''POST'' (backend_url e)]
               @ (rest @ [KvGet METRICS_kv ?ck, KvPut METRICS_kv ?ck 86400]
                    @ log_line lg INFO ''Webhook processed successfully'')"
    by (simp add: w'_def incrementCounter_def Let_def n2 w2_def tr)
  have "backend_calls e (tr @ [KvGet EVENTS_kv ?key]) = 0"
    and "\<not> list_ex is_kv_put (tr @ [KvGet EVENTS_kv ?key])"
    using adapter_effect_quiet [OF tr(2)] by (simp_all add: is_backend_call_def)
  moreover have "backend_calls e (rest @ [KvGet METRICS_kv ?ck, KvPut METRICS_kv ?ck 86400]
                    @ log_line lg INFO ''Webhook processed successfully'') = 0"
    using n3 by (simp add: is_backend_call_def)
  ultimately show ?thesis using run ev' tr' by blast
qed

lemma ext_quiet:
  assumes "ext e rt w w'"
  shows "SESSIONS w' = SESSIONS w" and "EVENTS w' = EVENTS w" and "METRICS w' = METRICS w"
    and "\<exists>tr. trace w' = trace w @ tr \<and> \<not> list_ex touches_ledger tr \<and> backend_calls e tr = 0
               \<and> \<not> list_ex is_kv_put tr
               \<and> (\<forall>x\<in>set tr. touches_metrics x \<longrightarrow> x = KvGet METRICS_kv (error_metric_key rt None))"
    and "\<exists>ps. pending w' = pending w @ ps \<and> (\<forall>p\<in>set ps. fst p = error_metric_key rt None)"
proof -
  show "SESSIONS w' = SESSIONS w" "EVENTS w' = EVENTS w" "METRICS w' = METRICS w"
    using assms by (simp_all add: ext_def)
  obtain tr where "trace w' = trace w @ tr" "list_all (adapter_effect e rt) tr"
    using assms by (auto simp add: ext_def)
  then show "\<exists>tr. trace w' = trace w @ tr \<and> \<not> list_ex touches_ledger tr \<and> backend_calls e tr = 0
               \<and> \<not> list_ex is_kv_put tr
               \<and> (\<forall>x\<in>set tr. touches_metrics x \<longrightarrow> x = KvGet METRICS_kv (error_metric_key rt None))"
    using adapter_effect_quiet [of e rt tr] by blast
  show "\<exists>ps. pending w' = pending w @ ps \<and> (\<forall>p\<in>set ps. fst p = error_metric_key rt None)"
    using assms by (auto simp add: ext_def list_all_iff)
qed

lemma handleWebhook_rejected_ext:
  assumes "getProviderAdapter (Some (JStr provider)) = Inr adapter"
    and v: "verifyWebhook adapter rt e lg req w = (Inl err, wv)"
  shows "ext e rt w (snd (handleWebhook rt e lg req provider w))"
proof -
  have "ext e rt w wv"
    using adapter_op_verifyWebhook [of e rt adapter lg req] v
    by (auto simp add: adapter_op_def dest!: spec [of _ w])
  then show ?thesis
    using handleWebhook_rejected [OF assms] ext_logger_log [of e rt wv lg ERROR]
    by (auto intro: ext_trans)
qed

subsection \<open>The three rejections of the Paddle adapter\<close>

lemma paddle_missing_header:
  "falsy_string (headers req ''paddle-signature'') \<Longrightarrow>
   Paddle_verifyWebhook rt e lg req w = (Inl (Error ''Missing Paddle signature header''), w)"
  by (simp add: Paddle_verifyWebhook_def)

lemma paddle_malformed:
  "\<not> falsy_string (headers req ''paddle-signature'') \<Longrightarrow> body_json req = Some j \<Longrightarrow>
   falsy_string (sigParts (the (headers req ''paddle-signature'')) ''ts'')
     \<or> falsy_string (sigParts (the (headers req ''paddle-signature'')) ''h1'') \<Longrightarrow>
   Paddle_verifyWebhook rt e lg req w = (Inl (Error ''Invalid Paddle signature format''), w)"
  by (auto simp add: Paddle_verifyWebhook_def Let_def)

lemma paddle_mismatch:
  "\<not> falsy_string (headers req ''paddle-signature'') \<Longrightarrow> body_json req = Some j \<Longrightarrow>
   \<not> falsy_string (sigParts (the (headers req ''paddle-signature'')) ''ts'') \<Longrightarrow>
   \<not> falsy_string (sigParts (the (headers req ''paddle-signature'')) ''h1'') \<Longrightarrow>
   \<not> verifyHmacSignature rt
        (the (sigParts (the (headers req ''paddle-signature'')) ''ts'') @ '':'' @ body_text req)
        (the (sigParts (the (headers req ''paddle-signature'')) ''h1''))
        (PADDLE_WEBHOOK_SECRET e) \<Longrightarrow>
   Paddle_verifyWebhook rt e lg req w = (Inl (Error ''Invalid Paddle webhook signature''), w)"
  by (auto simp add: Paddle_verifyWebhook_def Let_def)


subsection \<open>The concrete inputs\<close>

lemmas demo_defs = offline_def backend_up_def paypal_down_def paddle_up_def paypal_request_def demo_env_def createLogger_def signed_request_def unsigned_request_def
  empty_world_def paddle_event_def paddle_event_object_def

lemmas eval_defs = handleWebhook_def Paddle_verifyWebhook_def notifyBackend_def
  isEventProcessed_def markEventProcessed_def incrementCounter_def logger_log_def
  incrementErrorMetric_def error_metric_key_def today_def js_fetch_def emit_def
  await_def try_catch_def Let_def falsy_string_def sigParts_def sig_part_def
  verifyHmacSignature_def request_json_def event_key_def template_def obj_prop_def
  counter_next_def js_parseInt_def digit_val_def number_String_def string_of_int_def
  string_of_nat.simps digit_char_def toLowerCase_def lower_char_def backend_url_def backend_base_def
  run_detached_def


lemma successResponse_status [simp]: "status (successResponse d m) = 200"
  by (simp add: successResponse_def jsonResponse_def)

lemma handleWebhook_unsupported_ext:
  assumes "getProviderAdapter (Some (JStr provider)) = Inl err"
  shows "ext e rt w (snd (handleWebhook rt e lg req provider w))"
  using handleWebhook_unsupported [OF assms] ext_logger_log [of e rt w lg ERROR]
  by simp

lemma redelivery_no_forward:
  assumes ad: "getProviderAdapter (Some (JStr provider)) = Inr adapter"
    and marked: "EVENTS w (event_key provider (event_id_of adapter req)) \<noteq> None"
  shows "\<exists>tr. trace (snd (handleWebhook rt e lg req provider w)) = trace w @ tr
              \<and> backend_calls e tr = 0 \<and> \<not> list_ex is_kv_put tr"
proof -
  obtain res wv where v: "verifyWebhook adapter rt e lg req w = (res, wv)"
    by (cases "verifyWebhook adapter rt e lg req w")
  show ?thesis
  proof (cases res)
    case (Inl err)
    then show ?thesis
      using ext_quiet(4) [OF handleWebhook_rejected_ext [OF ad, of rt e lg req w err wv]] v
      by blast
  next
    case (Inr event)
    with v have v': "verifyWebhook adapter rt e lg req w = (Inr event, wv)" by simp
    obtain tr where tr: "trace wv = trace w @ tr" "backend_calls e tr = 0"
      "\<not> list_ex is_kv_put tr"
      using ext_quiet(4) [OF verifyWebhook_frame(1) [OF v']] by blast
    show ?thesis
      using handleWebhook_duplicate [OF ad v' marked] tr
      by (simp add: is_backend_call_def)
  qed
qed


lemma paddle_resolves: "getProviderAdapter (Some (JStr ''paddle'')) = Inr PaddleAdapter"
  by (simp add: toLowerCase_def lower_char_def)

lemma signed_request_verifies:
  assumes "hmacSha256Hex rt ''test_paddle_secret'' ''1:(body)'' = Some ''ab12''"
  shows "verifyWebhook PaddleAdapter rt demo_env lg signed_request w =
           (Inr paddle_event_object, w\<lparr>trace := trace w @ log_line lg INFO ''Paddle webhook verified''\<rparr>)"
  using assms
  by (simp add: Paddle_verifyWebhook_def signed_request_def demo_env_def falsy_string_def
        sigParts_def sig_part_def verifyHmacSignature_def Let_def paddle_event_def
        paddle_event_object_def logger_log_quiet await_def)

lemma offline_hmac: "hmacSha256Hex offline ''test_paddle_secret'' ''1:(body)'' = Some ''ab12''"
  by (simp add: offline_def)

lemma backend_up_hmac: "hmacSha256Hex backend_up ''test_paddle_secret'' ''1:(body)'' = Some ''ab12''"
  by (simp add: backend_up_def offline_def)

lemma run_detached_step_frame:
  "EVENTS (foldl run_detached_step w ps) = EVENTS w"
  "SESSIONS (foldl run_detached_step w ps) = SESSIONS w"
  by (induction ps arbitrary: w) auto

lemma run_detached_frame [simp]:
  "EVENTS (run_detached w) = EVENTS w" "SESSIONS (run_detached w) = SESSIONS w"
  by (simp_all add: run_detached_def run_detached_step_frame)

lemma fresh_demo:
  "EVENTS empty_world (event_key ''paddle'' (event_id_of PaddleAdapter signed_request)) = None"
  by (simp add: empty_world_def)

subsection \<open>What the Paddle adapter accepts\<close>

lemma paddle_accepts:
  assumes "headers req ''paddle-signature'' = Some sg" and "sg \<noteq> []"
    and "body_json req = Some j" and "j \<noteq> JNull"
    and "sigParts sg ''ts'' = Some ts" and "ts \<noteq> []"
    and "sigParts sg ''h1'' = Some h" and "h \<noteq> []"
    and "verifyHmacSignature rt (ts @ '':'' @ body_text req) h (PADDLE_WEBHOOK_SECRET e)"
  shows "Paddle_verifyWebhook rt e lg req w =
           (Inr [(''eventId'', get_member j ''event_id''),
                 (''eventType'', get_member j ''event_type''),
                 (''data'', get_member j ''data''), (''rawPayload'', Some j)],
            w\<lparr>trace := trace w @ log_line lg INFO ''Paddle webhook verified''\<rparr>)"
  using assms
  by (cases j)
     (simp_all add: Paddle_verifyWebhook_def falsy_string_def Let_def logger_log_quiet await_def)


subsection \<open>Unsupported providers\<close>

lemma handleCheckout_unsupported:
  assumes "body_json req = Some body" and "get_member body ''provider'' = Some (JStr name)"
    and "truthy (get_member body ''provider'')" and "truthy (get_member body ''userId'')"
    and "truthy (get_member body ''email'')" and "truthy (get_member body ''amount'')"
    and "truthy (get_member body ''productName'')"
    and "getProviderAdapter (Some (JStr name)) = Inl err"
  shows "fst (handleCheckout rt e lg req w) = Inr (errorResponse (message err) 500)"
proof -
  have "body \<noteq> JNull" using assms(2) by auto
  then show ?thesis
    using assms
    by (simp add: handleCheckout_def destructure_def Let_def await_def logger_log_error
          del: getProviderAdapter.simps)
qed

lemma handleSubscriptionCreate_unsupported:
  assumes "body_json req = Some body" and "get_member body ''provider'' = Some (JStr name)"
    and "truthy (get_member body ''provider'')" and "truthy (get_member body ''userId'')"
    and "truthy (get_member body ''email'')"
    and "truthy (get_member body ''planId'') \<or> truthy (get_member body ''priceId'')"
    and "getProviderAdapter (Some (JStr name)) = Inl err"
  shows "fst (handleSubscriptionCreate rt e lg req w) = Inr (errorResponse (message err) 500)"
proof -
  have "body \<noteq> JNull" using assms(2) by auto
  then show ?thesis
    using assms
    by (auto simp add: handleSubscriptionCreate_def destructure_def Let_def await_def
          logger_log_error simp del: getProviderAdapter.simps)
qed


subsection \<open>Failed upstream calls\<close>

lemma fails_reject [intro!]: "fails (reject err)"
  by (simp add: fails_def)

lemma fails_await1: "fails m \<Longrightarrow> fails (await m f)"
  unfolding fails_def
proof
  fix w assume a: "\<forall>w. isl (fst (m w))"
  then obtain err w' where "m w = (Inl err, w')"
    by (metis isl_def prod.collapse)
  then show "isl (fst (await m f w))" by (simp add: await_def)
qed

lemma fails_await2: "(\<And>x. fails (f x)) \<Longrightarrow> fails (await m f)"
  unfolding fails_def
proof
  fix w assume a: "\<And>x. \<forall>w. isl (fst (f x w))"
  obtain r w' where m: "m w = (r, w')" by (cases "m w")
  show "isl (fst (await m f w))"
    using m a by (cases r) (simp_all add: await_def)
qed

lemma fails_rethrow:
  "fails m \<Longrightarrow>
   fails (try_catch m (\<lambda>error. await (logger_log lg rt ERROR msg) (\<lambda>_. reject error)))"
  unfolding fails_def
proof
  fix w assume a: "\<forall>w. isl (fst (m w))"
  then obtain err w' where "m w = (Inl err, w')"
    by (metis isl_def prod.collapse)
  then show "isl (fst (try_catch m
                  (\<lambda>error. await (logger_log lg rt ERROR msg) (\<lambda>_. reject error)) w))"
    by (simp add: try_catch_def await_def logger_log_error)
qed

lemma fails_fetch:
  assumes "upstream_failed (fetch rt method url)"
  shows "fails (await (js_fetch rt method url)
                  (\<lambda>response. if \<not> resp_ok response then reject (g response)
                               else h response))"
  using assms
  by (cases "fetch rt method url")
     (simp_all add: fails_def js_fetch_def emit_def await_def upstream_failed_def)

lemma failsD: "fails m \<Longrightarrow> \<exists>err w'. m w = (Inl err, w')"
  by (metis fails_def isl_def prod.collapse)

lemma fails_getAccessToken:
  "upstream_failed (fetch rt ''POST'' (paypal_baseUrl e @ ''/v1/oauth2/token'')) \<Longrightarrow>
   fails (getAccessToken rt e lg)"
  unfolding getAccessToken_def by (intro fails_rethrow fails_fetch)

lemma fails_adapter_call:
  assumes "(method, url) \<in> set (upstream_calls e adapter operation)"
    and "upstream_failed (fetch rt method url)"
  shows "operation = Checkout \<longrightarrow> fails (createCheckoutSession adapter rt e lg payload)"
    and "operation = GetSession sessionId \<longrightarrow> fails (adapter_getSession adapter rt e lg sessionId)"
    and "operation = Subscribe \<longrightarrow> fails (createSubscription adapter rt e lg payload)"
    and "operation = Cancel sessionId \<longrightarrow> fails (cancelSubscription adapter rt e lg sessionId)"
    and "operation = VerifyWebhook \<longrightarrow> fails (verifyWebhook adapter rt e lg req)"
proof -
  show "operation = Checkout \<longrightarrow> fails (createCheckoutSession adapter rt e lg payload)"
  proof (cases adapter)
    case PaddleAdapter
    then show ?thesis using assms
      by (auto simp add: Paddle_createCheckoutSession_def intro!: fails_rethrow fails_fetch)
  next
    case PayPalAdapter
    show ?thesis
    proof
      assume op: "operation = Checkout"
      then consider "method = ''POST''" "url = paypal_baseUrl e @ ''/v1/oauth2/token''"
        | "(method, url) = hd (tl (upstream_calls e adapter operation))"
        using assms(1) PayPalAdapter by auto
      then show "fails (createCheckoutSession adapter rt e lg payload)"
      proof cases
        case 1
        then show ?thesis using assms(2) PayPalAdapter
          by (auto simp add: PayPal_createCheckoutSession_def
                intro!: fails_rethrow fails_await1 [OF fails_getAccessToken])
      next
        case 2
        then show ?thesis using assms(2) PayPalAdapter op
          by (auto simp add: PayPal_createCheckoutSession_def
                intro!: fails_rethrow fails_await2 [OF fails_fetch])
      qed
    qed
  next
    case StripeAdapter
    then show ?thesis using assms by simp
  qed
  show "operation = GetSession sessionId \<longrightarrow> fails (adapter_getSession adapter rt e lg sessionId)"
  proof (cases adapter)
    case PaddleAdapter
    then show ?thesis using assms
      by (auto simp add: Paddle_getSession_def intro!: fails_rethrow fails_fetch)
  next
    case PayPalAdapter
    show ?thesis
    proof
      assume op: "operation = GetSession sessionId"
      then consider "method = ''POST''" "url = paypal_baseUrl e @ ''/v1/oauth2/token''"
        | "(method, url) = hd (tl (upstream_calls e adapter operation))"
        using assms(1) PayPalAdapter by auto
      then show "fails (adapter_getSession adapter rt e lg sessionId)"
      proof cases
        case 1
        then show ?thesis using assms(2) PayPalAdapter
          by (auto simp add: PayPal_getSession_def
                intro!: fails_rethrow fails_await1 [OF fails_getAccessToken])
      next
        case 2
        then show ?thesis using assms(2) PayPalAdapter op
          by (auto simp add: PayPal_getSession_def
                intro!: fails_rethrow fails_await2 [OF fails_fetch])
      qed
    qed
  next
    case StripeAdapter
    then show ?thesis using assms by simp
  qed
  show "operation = Subscribe \<longrightarrow> fails (createSubscription adapter rt e lg payload)"
  proof (cases adapter)
    case PaddleAdapter
    then show ?thesis using assms
      by (auto simp add: Paddle_createSubscription_def intro!: fails_rethrow fails_fetch)
  next
    case PayPalAdapter
    show ?thesis
    proof
      assume op: "operation = Subscribe"
      then consider "method = ''POST''" "url = paypal_baseUrl e @ ''/v1/oauth2/token''"
        | "(method, url) = hd (tl (upstream_calls e adapter operation))"
        using assms(1) PayPalAdapter by auto
      then show "fails (createSubscription adapter rt e lg payload)"
      proof cases
        case 1
        then show ?thesis using assms(2) PayPalAdapter
          by (auto simp add: PayPal_createSubscription_def
                intro!: fails_rethrow fails_await1 [OF fails_getAccessToken])
      next
        case 2
        then show ?thesis using assms(2) PayPalAdapter op
          by (auto simp add: PayPal_createSubscription_def
                intro!: fails_rethrow fails_await2 [OF fails_fetch])
      qed
    qed
  next
    case StripeAdapter
    then show ?thesis using assms by simp
  qed
  show "operation = Cancel sessionId \<longrightarrow> fails (cancelSubscription adapter rt e lg sessionId)"
  proof (cases adapter)
    case PaddleAdapter
    then show ?thesis using assms
      by (auto simp add: Paddle_cancelSubscription_def intro!: fails_rethrow fails_fetch)
  next
    case PayPalAdapter
    show ?thesis
    proof
      assume op: "operation = Cancel sessionId"
      then consider "method = ''POST''" "url = paypal_baseUrl e @ ''/v1/oauth2/token''"
        | "(method, url) = hd (tl (upstream_calls e adapter operation))"
        using assms(1) PayPalAdapter by auto
      then show "fails (cancelSubscription adapter rt e lg sessionId)"
      proof cases
        case 1
        then show ?thesis using assms(2) PayPalAdapter
          by (auto simp add: PayPal_cancelSubscription_def
                intro!: fails_rethrow fails_await1 [OF fails_getAccessToken])
      next
        case 2
        then show ?thesis using assms(2) PayPalAdapter op
          by (auto simp add: PayPal_cancelSubscription_def
                intro!: fails_rethrow fails_await2 [OF fails_fetch])
      qed
    qed
  next
    case StripeAdapter
    then show ?thesis using assms by simp
  qed
  show "operation = VerifyWebhook \<longrightarrow> fails (verifyWebhook adapter rt e lg req)"
  proof (cases adapter)
    case PaddleAdapter
    then show ?thesis using assms by auto
  next
    case PayPalAdapter
    show ?thesis
    proof
      assume op: "operation = VerifyWebhook"
      then consider "method = ''POST''" "url = paypal_baseUrl e @ ''/v1/oauth2/token''"
        | "(method, url) = hd (tl (upstream_calls e adapter operation))"
        using assms(1) PayPalAdapter by auto
      then show "fails (verifyWebhook adapter rt e lg req)"
      proof cases
        case 1
        then show ?thesis using assms(2) PayPalAdapter
          by (auto simp add: PayPal_verifyWebhook_def
                intro!: fails_await2 fails_rethrow fails_await1 [OF fails_getAccessToken])
      next
        case 2
        then show ?thesis using assms(2) PayPalAdapter op
          by (auto simp add: PayPal_verifyWebhook_def
                intro!: fails_await2 fails_rethrow fails_await2 [OF fails_fetch])
      qed
    qed
  next
    case StripeAdapter
    then show ?thesis using assms by simp
  qed
qed

lemma template_JStr [simp]: "template (Some (JStr s)) = s"
  by (simp add: template_def)

lemma errorResponse_envelope [simp]:
  "status (errorResponse msg code) = code"
  "json_body (errorResponse msg code) = JObj [(''success'', JBool False), (''error'', JStr msg)]"
  by (simp_all add: errorResponse_def jsonResponse_def stringify_def)

lemma handleCheckout_adapter_fails:
  assumes "body_json req = Some body"
    and "truthy (get_member body ''provider'')" and "truthy (get_member body ''userId'')"
    and "truthy (get_member body ''email'')" and "truthy (get_member body ''amount'')"
    and "truthy (get_member body ''productName'')"
    and "getProviderAdapter (get_member body ''provider'') = Inr adapter"
    and f: "fails (createCheckoutSession adapter rt e lg (checkout_payload e body))"
  shows "\<exists>msg. fst (handleCheckout rt e lg req w) = Inr (errorResponse msg 500)"
proof -
  have nn: "body \<noteq> JNull" using assms(2) by auto
  obtain err w1 where
    "createCheckoutSession adapter rt e lg (checkout_payload e body) w = (Inl err, w1)"
    using failsD [OF f] by blast
  then have "fst (handleCheckout rt e lg req w) = Inr (errorResponse (message err) 500)"
    using assms(1-7) nn
    by (simp add: handleCheckout_def destructure_def Let_def await_def try_catch_def
          logger_log_error del: getProviderAdapter.simps)
  then show ?thesis by blast
qed

lemma handleSubscriptionCreate_adapter_fails:
  assumes "body_json req = Some body"
    and "truthy (get_member body ''provider'')" and "truthy (get_member body ''userId'')"
    and "truthy (get_member body ''email'')"
    and "truthy (get_member body ''planId'') \<or> truthy (get_member body ''priceId'')"
    and "getProviderAdapter (get_member body ''provider'') = Inr adapter"
    and f: "fails (createSubscription adapter rt e lg (subscription_payload e body))"
  shows "\<exists>msg. fst (handleSubscriptionCreate rt e lg req w) = Inr (errorResponse msg 500)"
proof -
  have nn: "body \<noteq> JNull" using assms(2) by auto
  obtain err w1 where
    "createSubscription adapter rt e lg (subscription_payload e body) w = (Inl err, w1)"
    using failsD [OF f] by blast
  then have "fst (handleSubscriptionCreate rt e lg req w)
             = Inr (errorResponse (message err) 500)"
    using assms(1-6) nn
    by (auto simp add: handleSubscriptionCreate_def destructure_def Let_def await_def
          try_catch_def logger_log_error simp del: getProviderAdapter.simps)
  then show ?thesis by blast
qed

lemma handleReceipt_adapter_fails:
  assumes "SESSIONS w (''session:'' @ sessionId) = Some (stored, ttl)"
    and "truthy (Some stored)"
    and "getProviderAdapter (get_member stored ''provider'') = Inr adapter"
    and f: "fails (adapter_getSession adapter rt e lg sessionId)"
  shows "\<exists>msg. fst (handleReceipt rt e lg sessionId w) = Inr (errorResponse msg 500)"
proof -
  let ?w1 = "w\<lparr>trace := trace w @ [KvGet SESSIONS_kv (''session:'' @ sessionId)]\<rparr>"
  obtain err w2 where "adapter_getSession adapter rt e lg sessionId ?w1 = (Inl err, w2)"
    using failsD [OF f] by blast
  then have "fst (handleReceipt rt e lg sessionId w) = Inr (errorResponse (message err) 500)"
    using assms(1-3)
    by (simp add: handleReceipt_def getSession_def Let_def await_def try_catch_def
          logger_log_error del: getProviderAdapter.simps)
  then show ?thesis by blast
qed

lemma handleSubscriptionCancel_adapter_fails:
  assumes "SESSIONS w (''session:'' @ subscriptionId) = Some (stored, ttl)"
    and "truthy (Some stored)"
    and "getProviderAdapter (get_member stored ''provider'') = Inr adapter"
    and f: "fails (cancelSubscription adapter rt e lg subscriptionId)"
  shows "\<exists>msg. fst (handleSubscriptionCancel rt e lg subscriptionId w)
               = Inr (errorResponse msg 500)"
proof -
  let ?w1 = "w\<lparr>trace := trace w @ [KvGet SESSIONS_kv (''session:'' @ subscriptionId)]\<rparr>"
  obtain err w2 where "cancelSubscription adapter rt e lg subscriptionId ?w1 = (Inl err, w2)"
    using failsD [OF f] by blast
  then have "fst (handleSubscriptionCancel rt e lg subscriptionId w)
             = Inr (errorResponse (message err) 500)"
    using assms(1-3)
    by (simp add: handleSubscriptionCancel_def getSession_def Let_def await_def try_catch_def
          logger_log_error del: getProviderAdapter.simps)
  then show ?thesis by blast
qed

lemma handleWebhook_adapter_fails:
  assumes "getProviderAdapter (Some (JStr provider)) = Inr adapter"
    and f: "fails (verifyWebhook adapter rt e lg req)"
  shows "\<exists>msg. fst (handleWebhook rt e lg req provider w) = Inr (errorResponse msg 400)"
proof -
  obtain err w1 where "verifyWebhook adapter rt e lg req w = (Inl err, w1)"
    using failsD [OF f] by blast
  from handleWebhook_rejected [OF assms(1) this] show ?thesis by auto
qed


subsection \<open>Stored sessions\<close>

lemma map_of_map_filter_absent:
  "name \<notin> fst ` set obj \<Longrightarrow>
   map_of (List.map_filter (\<lambda>(k, v). map_option (Pair k) v) obj) name = None"
  by (induction obj) (auto split: option.splits)

lemma get_member_stringify:
  "distinct (map fst obj) \<Longrightarrow> get_member (stringify obj) name = obj_prop obj name"
proof (induction obj)
  case Nil
  then show ?case by (simp add: stringify_def obj_prop_def)
next
  case (Cons p obj)
  obtain k v where p: "p = (k, v)" by (cases p)
  have ih: "map_of (List.map_filter (\<lambda>(k, v). map_option (Pair k) v) obj) name
            = obj_prop obj name"
    using Cons by (simp add: stringify_def)
  show ?case
  proof (cases v)
    case None
    then show ?thesis
      using p ih Cons.prems map_of_map_filter_absent [of k obj]
      by (auto simp add: stringify_def obj_prop_def)
  next
    case (Some j)
    then show ?thesis using p ih by (simp add: stringify_def obj_prop_def)
  qed
qed

lemma handleCheckout_created:
  assumes b: "body_json req = Some body"
    and t: "truthy (get_member body ''provider'')" "truthy (get_member body ''userId'')"
      "truthy (get_member body ''email'')" "truthy (get_member body ''amount'')"
      "truthy (get_member body ''productName'')"
    and ad: "getProviderAdapter (get_member body ''provider'') = Inr adapter"
    and cs: "createCheckoutSession adapter rt e lg (checkout_payload e body) w = (Inr session, w1)"
  shows "fst (handleCheckout rt e lg req w)
           = Inr (successResponse (Some (stringify session))
                    ''Checkout session created successfully'')"
    and "SESSIONS (snd (handleCheckout rt e lg req w))
           (''session:'' @ template (obj_prop session ''sessionId''))
         = Some (stringify [(''userId'', get_member body ''userId''),
                            (''provider'', get_member body ''provider''),
                            (''email'', get_member body ''email''),
                            (''amount'', get_member body ''amount''),
                            (''currency'', get_member body ''currency''),
                            (''productName'', get_member body ''productName''),
                            (''createdAt'', Some (JStr (now_iso rt)))], 3600)"
proof -
  have nn: "body \<noteq> JNull" using t(1) by auto
  show "fst (handleCheckout rt e lg req w)
           = Inr (successResponse (Some (stringify session))
                    ''Checkout session created successfully'')"
    using b t ad cs nn
    by (simp add: handleCheckout_def destructure_def Let_def await_def try_catch_def
          storeSession_def incrementCounter_def logger_log_quiet
          del: getProviderAdapter.simps)
  show "SESSIONS (snd (handleCheckout rt e lg req w))
           (''session:'' @ template (obj_prop session ''sessionId''))
         = Some (stringify [(''userId'', get_member body ''userId''),
                            (''provider'', get_member body ''provider''),
                            (''email'', get_member body ''email''),
                            (''amount'', get_member body ''amount''),
                            (''currency'', get_member body ''currency''),
                            (''productName'', get_member body ''productName''),
                            (''createdAt'', Some (JStr (now_iso rt)))], 3600)"
    using b t ad cs nn
    by (simp add: handleCheckout_def destructure_def Let_def await_def try_catch_def
          storeSession_def incrementCounter_def logger_log_quiet
          del: getProviderAdapter.simps)
qed

lemma handleReceipt_found:
  assumes "SESSIONS w (''session:'' @ sessionId) = Some (stored, ttl)"
    and "truthy (Some stored)"
    and "getProviderAdapter (get_member stored ''provider'') = Inr adapter"
  shows "adapter_getSession adapter rt e lg sessionId
           (w\<lparr>trace := trace w @ [KvGet SESSIONS_kv (''session:'' @ sessionId)]\<rparr>)
           = (Inr details, w3) \<Longrightarrow>
         fst (handleReceipt rt e lg sessionId w)
           = Inr (successResponse
                    (Some (stringify [(''session'', Some stored),
                                      (''providerDetails'', details)]))
                    ''Receipt retrieved successfully'')"
    and "\<exists>resp. fst (handleReceipt rt e lg sessionId w) = Inr resp
          \<and> (status resp = 200 \<or> status resp = 500)"
proof -
  let ?w1 = "w\<lparr>trace := trace w @ [KvGet SESSIONS_kv (''session:'' @ sessionId)]\<rparr>"
  show "adapter_getSession adapter rt e lg sessionId ?w1 = (Inr details, w3) \<Longrightarrow>
         fst (handleReceipt rt e lg sessionId w)
           = Inr (successResponse
                    (Some (stringify [(''session'', Some stored),
                                      (''providerDetails'', details)]))
                    ''Receipt retrieved successfully'')"
    using assms
    by (simp add: handleReceipt_def getSession_def Let_def await_def try_catch_def
          logger_log_quiet del: getProviderAdapter.simps)
  obtain res w2 where r: "adapter_getSession adapter rt e lg sessionId ?w1 = (res, w2)"
    by (cases "adapter_getSession adapter rt e lg sessionId ?w1")
  show "\<exists>resp. fst (handleReceipt rt e lg sessionId w) = Inr resp
          \<and> (status resp = 200 \<or> status resp = 500)"
    using assms r
    by (cases res)
       (simp_all add: handleReceipt_def getSession_def Let_def await_def try_catch_def
          logger_log_quiet logger_log_error del: getProviderAdapter.simps)
qed

lemma paddle_up_checkout:
  "createCheckoutSession PaddleAdapter paddle_up demo_env lg payload w =
     (Inr paddle_session,
      w\<lparr>trace := trace w @ Fetch ''POST'' ''https://api.paddle.com/transactions''
                        # log_line lg INFO ''Paddle checkout session created''\<rparr>)"
  by (simp add: Paddle_createCheckoutSession_def paddle_up_def offline_def demo_env_def
        paddle_baseUrl_def js_fetch_def emit_def await_def try_catch_def response_json_def
        logger_log_quiet js_or_def paddle_session_def)

lemma paddle_up_getSession:
  "adapter_getSession PaddleAdapter paddle_up demo_env lg sessionId w =
     (Inr (Some paddle_transaction),
      w\<lparr>trace := trace w
           @ [Fetch ''GET'' (''https://api.paddle.com/transactions/'' @ sessionId)]\<rparr>)"
  by (simp add: Paddle_getSession_def paddle_up_def offline_def demo_env_def
        paddle_baseUrl_def js_fetch_def emit_def await_def try_catch_def response_json_def
        paddle_transaction_def)

lemma paddle_checkout_valid:
  "body_json (json_request paddle_checkout) = Some paddle_checkout"
  "truthy (get_member paddle_checkout ''provider'') \<and> truthy (get_member paddle_checkout ''userId'')
   \<and> truthy (get_member paddle_checkout ''email'') \<and> truthy (get_member paddle_checkout ''amount'')
   \<and> truthy (get_member paddle_checkout ''productName'')"
  "getProviderAdapter (get_member paddle_checkout ''provider'') = Inr PaddleAdapter"
  "''txn_123'' = template (obj_prop paddle_session ''sessionId'')"
  by (simp_all add: json_request_def paddle_checkout_def toLowerCase_def lower_char_def
        paddle_session_def obj_prop_def template_def)


section \<open>Checkout validation\<close>

lemma checkout_rejects_falsy:
  assumes "body_json req = Some body" and "body \<noteq> JNull"
    and "\<not> truthy (get_member body ''provider'') \<or> \<not> truthy (get_member body ''userId'')
         \<or> \<not> truthy (get_member body ''email'') \<or> \<not> truthy (get_member body ''amount'')
         \<or> \<not> truthy (get_member body ''productName'')"
  shows "handleCheckout rt e lg req w = (Inr (errorResponse ''Missing required fields'' 400), w)"
  using assms
  by (auto simp add: handleCheckout_def destructure_def Let_def)

lemma map_of_without [simp]: "map_of (filter (\<lambda>p. fst p \<noteq> name) fs) name = None"
  by (induction fs) auto

text \<open>
  C7. A checkout whose JSON body is an object lacking one of \<^verbatim>\<open>provider\<close>, \<^verbatim>\<open>userId\<close>,
  \<^verbatim>\<open>email\<close>, \<^verbatim>\<open>amount\<close>, \<^verbatim>\<open>productName\<close> is answered 400 ``Missing required fields'',
  and the world is returned as it was: no adapter was resolved, no request sent, nothing
  read from or written to KV, no counter touched, no line logged.
\<close>

theorem checkout_missing_field_rejected:
  assumes "body_json req = Some (JObj fs)"
    and "name \<in> {''provider'', ''userId'', ''email'', ''amount'', ''productName''}"
    and "map_of fs name = None"
  shows "handleCheckout rt e lg req w = (Inr (errorResponse ''Missing required fields'' 400), w)
         \<and> status (errorResponse ''Missing required fields'' 400) = 400
         \<and> get_member (json_body (errorResponse ''Missing required fields'' 400)) ''error''
             = Some (JStr ''Missing required fields'')"
proof -
  have "\<not> truthy (get_member (JObj fs) name)" using assms(3) by simp
  then have "handleCheckout rt e lg req w
             = (Inr (errorResponse ''Missing required fields'' 400), w)"
    using assms(1,2) by (intro checkout_rejects_falsy [of req "JObj fs"]) auto
  then show ?thesis
    by (simp add: errorResponse_def jsonResponse_def stringify_def)
qed

theorem checkout_missing_field_rejected_witness:
  "body_json (json_request (JObj provider_only)) = Some (JObj provider_only)
   \<and> ''userId'' \<in> {''provider'', ''userId'', ''email'', ''amount'', ''productName''}
   \<and> map_of provider_only ''userId'' = None
   \<and> handleCheckout offline demo_env (createLogger demo_env)
        (json_request (JObj provider_only)) empty_world
       = (Inr (errorResponse ''Missing required fields'' 400), empty_world)"
  using checkout_missing_field_rejected
          [of "json_request (JObj provider_only)" provider_only "''userId''"
              offline demo_env "createLogger demo_env" empty_world]
  by (simp add: json_request_def provider_only_def)

text \<open>
  C10. The check is on truthiness: a required field that is present but holds 0, the
  empty string, \<^verbatim>\<open>null\<close> or \<^verbatim>\<open>false\<close> gets the same answer as the body with that field
  taken out: 400 ``Missing required fields'', the world untouched (no adapter call).
\<close>

theorem checkout_falsy_field_rejected:
  assumes "body_json req = Some (JObj fs)"
    and "name \<in> {''provider'', ''userId'', ''email'', ''amount'', ''productName''}"
    and "map_of fs name = Some v"
    and "v \<in> {JNum 0, JStr [], JNull, JBool False}"
  shows "handleCheckout rt e lg req w = (Inr (errorResponse ''Missing required fields'' 400), w)
         \<and> handleCheckout rt e lg req w
             = handleCheckout rt e lg
                 (req\<lparr>body_json := Some (JObj (filter (\<lambda>p. fst p \<noteq> name) fs))\<rparr>) w"
proof -
  have "\<not> truthy (get_member (JObj fs) name)" using assms(3,4) by auto
  then have a: "handleCheckout rt e lg req w
                = (Inr (errorResponse ''Missing required fields'' 400), w)"
    using assms(1,2) by (intro checkout_rejects_falsy [of req "JObj fs"]) auto
  let ?req' = "req\<lparr>body_json := Some (JObj (filter (\<lambda>p. fst p \<noteq> name) fs))\<rparr>"
  have "\<not> truthy (get_member (JObj (filter (\<lambda>p. fst p \<noteq> name) fs)) name)" by simp
  then have "handleCheckout rt e lg ?req' w
             = (Inr (errorResponse ''Missing required fields'' 400), w)"
    using assms(2)
    by (intro checkout_rejects_falsy [of ?req' "JObj (filter (\<lambda>p. fst p \<noteq> name) fs)"]) auto
  with a show ?thesis by simp
qed

theorem checkout_falsy_field_rejected_witness:
  "body_json (json_request (JObj zero_amount)) = Some (JObj zero_amount)
   \<and> map_of zero_amount ''amount'' = Some (JNum 0)
   \<and> handleCheckout offline demo_env (createLogger demo_env)
        (json_request (JObj zero_amount)) empty_world
       = (Inr (errorResponse ''Missing required fields'' 400), empty_world)"
  using checkout_falsy_field_rejected
          [of "json_request (JObj zero_amount)" zero_amount "''amount''" "JNum 0"
              offline demo_env "createLogger demo_env" empty_world]
  by (simp add: json_request_def zero_amount_def)


section \<open>Webhook intake\<close>

text \<open>
  C1. The same verified webhook delivered twice, one delivery after the other, to a
  ledger that does not yet hold its marker: both deliveries are answered 200, the first
  with ``Webhook processed successfully'' and exactly one POST to the backend, the second
  with ``Event already processed'' and no POST to the backend, no KV write, no change to
  the metrics store and no pending counter write. The second delivery may start from any
  world whose ledger is the one the first delivery left.
\<close>

theorem duplicate_delivery_forwards_once:
  assumes ad: "getProviderAdapter (Some (JStr provider)) = Inr adapter"
    and v1: "verifyWebhook adapter rt1 e lg req w0 = (Inr ev1, wv1)"
    and fresh: "EVENTS w0 (event_key provider (event_id_of adapter req)) = None"
    and run1: "handleWebhook rt1 e lg req provider w0 = (r1, w1)"
    and mid: "EVENTS wmid = EVENTS w1"
    and v2: "verifyWebhook adapter rt2 e lg req wmid = (Inr ev2, wv2)"
    and run2: "handleWebhook rt2 e lg req provider wmid = (r2, w2)"
  shows "r1 = Inr (successResponse received ''Webhook processed successfully'')
         \<and> r2 = Inr (successResponse received ''Event already processed'')
         \<and> status (successResponse received ''Webhook processed successfully'') = 200
         \<and> status (successResponse received ''Event already processed'') = 200
         \<and> (\<exists>tr1. trace w1 = trace w0 @ tr1 \<and> backend_calls e tr1 = 1)
         \<and> (\<exists>tr2. trace w2 = trace wmid @ tr2 \<and> backend_calls e tr2 = 0
                   \<and> \<not> list_ex is_kv_put tr2)
         \<and> METRICS w2 = METRICS wmid \<and> pending w2 = pending wmid
         \<and> EVENTS w2 = EVENTS wmid"
proof -
  let ?key = "event_key provider (event_id_of adapter req)"
  obtain w' pre post where
    f: "handleWebhook rt1 e lg req provider w0 =
          (Inr (successResponse received ''Webhook processed successfully''), w')"
       "EVENTS w' ?key \<noteq> None"
       "trace w' = trace w0 @ pre
          @ [KvPut EVENTS_kv ?key 604800, Fetch ''POST'' (backend_url e)] @ post"
       "backend_calls e pre = 0" "backend_calls e post = 0"
    using handleWebhook_fresh [OF ad v1 fresh] by blast
  have r1: "r1 = Inr (successResponse received ''Webhook processed successfully'')"
    and w1: "w1 = w'" using f(1) run1 by simp_all
  have marked: "EVENTS wmid ?key \<noteq> None" using f(2) mid w1 by simp
  have t1: "trace w1 = trace w0
              @ (pre @ [KvPut EVENTS_kv ?key 604800, Fetch ''POST'' (backend_url e)] @ post)"
    using f(3) w1 by simp
  have c1: "backend_calls e
              (pre @ [KvPut EVENTS_kv ?key 604800, Fetch ''POST'' (backend_url e)] @ post) = 1"
    using f(4,5) by (simp add: is_backend_call_def)
  have d: "handleWebhook rt2 e lg req provider wmid =
             (Inr (successResponse received ''Event already processed''),
              wv2\<lparr>trace := trace wv2 @ KvGet EVENTS_kv ?key
                                # log_line lg INFO ''Event already processed (idempotent)''\<rparr>)"
    using handleWebhook_duplicate [OF ad v2 marked] .
  have fr: "ext e rt2 wmid wv2" "pending wv2 = pending wmid"
    using verifyWebhook_frame [OF v2] by simp_all
  obtain tr2 where t2: "trace w2 = trace wmid @ tr2" "backend_calls e tr2 = 0"
    "\<not> list_ex is_kv_put tr2"
    using redelivery_no_forward [OF ad marked, of rt2 e lg] run2 by auto
  have "METRICS w2 = METRICS wmid" "pending w2 = pending wmid" "EVENTS w2 = EVENTS wmid"
    using d run2 fr by (auto simp add: ext_def)
  then show ?thesis using r1 d run2 t1 c1 t2 by auto
qed

theorem duplicate_delivery_forwards_once_witness:
  "EVENTS empty_world (event_key ''paddle'' (event_id_of PaddleAdapter signed_request)) = None
   \<and> fst (handleWebhook offline demo_env (createLogger demo_env) signed_request ''paddle''
            empty_world)
       = Inr (successResponse received ''Webhook processed successfully'')
   \<and> fst (handleWebhook backend_up demo_env (createLogger demo_env) signed_request ''paddle''
            (run_detached (snd (handleWebhook offline demo_env (createLogger demo_env)
                                  signed_request ''paddle'' empty_world))))
       = Inr (successResponse received ''Event already processed'')"
  using duplicate_delivery_forwards_once
          [OF paddle_resolves
              signed_request_verifies [OF offline_hmac, of "createLogger demo_env" empty_world]
              fresh_demo surjective_pairing run_detached_frame(1)
              signed_request_verifies [OF backend_up_hmac, of "createLogger demo_env"]
              surjective_pairing]
        fresh_demo
  by simp

text \<open>
  C2 (as amended). When the adapter's \<^verbatim>\<open>verifyWebhook\<close> throws (a missing header, a
  malformed signature, an HMAC mismatch, a failed remote verification), the handler
  answers 400 with the error's message; the three stores are unchanged; nothing in the
  run reads or writes the ledger, calls the backend or puts to KV; the only access to
  the metrics store is the logger reading its own error counter
  \<^verbatim>\<open>error:unknown:<date>\<close>, and the only writes left pending are to that key.
\<close>

theorem webhook_signature_failure:
  assumes "getProviderAdapter (Some (JStr provider)) = Inr adapter"
    and "verifyWebhook adapter rt e lg req w = (Inl err, wv)"
    and "handleWebhook rt e lg req provider w = (r, w')"
  shows "r = Inr (errorResponse (message err) 400)
         \<and> status (errorResponse (message err) 400) = 400
         \<and> SESSIONS w' = SESSIONS w \<and> EVENTS w' = EVENTS w \<and> METRICS w' = METRICS w
         \<and> (\<exists>tr. trace w' = trace w @ tr \<and> \<not> list_ex touches_ledger tr
                  \<and> backend_calls e tr = 0 \<and> \<not> list_ex is_kv_put tr
                  \<and> (\<forall>x\<in>set tr. touches_metrics x
                         \<longrightarrow> x = KvGet METRICS_kv (error_metric_key rt None)))
         \<and> (\<exists>ps. pending w' = pending w @ ps
                  \<and> (\<forall>p\<in>set ps. fst p = error_metric_key rt None))"
proof -
  have "ext e rt w w'"
    using handleWebhook_rejected_ext [OF assms(1,2)] assms(3) by simp
  from ext_quiet [OF this] handleWebhook_rejected [OF assms(1,2)] assms(3)
  show ?thesis by (simp add: errorResponse_def jsonResponse_def)
qed

theorem webhook_signature_failure_witness:
  "getProviderAdapter (Some (JStr ''paddle'')) = Inr PaddleAdapter
   \<and> verifyWebhook PaddleAdapter offline demo_env (createLogger demo_env) unsigned_request
         empty_world = (Inl (Error ''Missing Paddle signature header''), empty_world)
   \<and> fst (handleWebhook offline demo_env (createLogger demo_env) unsigned_request ''paddle''
            empty_world) = Inr (errorResponse ''Missing Paddle signature header'' 400)
   \<and> EVENTS (snd (handleWebhook offline demo_env (createLogger demo_env) unsigned_request
                    ''paddle'' empty_world)) = EVENTS empty_world"
proof -
  have a: "getProviderAdapter (Some (JStr ''paddle'')) = Inr PaddleAdapter"
    by (simp add: toLowerCase_def lower_char_def)
  have b: "verifyWebhook PaddleAdapter offline demo_env (createLogger demo_env) unsigned_request
         empty_world = (Inl (Error ''Missing Paddle signature header''), empty_world)"
    by (simp add: paddle_missing_header falsy_string_def unsigned_request_def)
  show ?thesis
    using webhook_signature_failure [OF a b surjective_pairing] a b by simp
qed

text \<open>
  C2 as first stated (no metrics counter is incremented) fails for the logger
  that \<^verbatim>\<open>createLogger\<close> builds: the \<^verbatim>\<open>catch\<close> block logs at ERROR level, and that bumps
  \<^verbatim>\<open>error:unknown:2025-01-01\<close> from absent to 1.
\<close>

theorem webhook_signature_failure_bumps_error_counter:
  "verifyWebhook PaddleAdapter offline demo_env (createLogger demo_env) unsigned_request
     empty_world = (Inl (Error ''Missing Paddle signature header''), empty_world)
   \<and> METRICS empty_world ''error:unknown:2025-01-01'' = None
   \<and> trace (snd (handleWebhook offline demo_env (createLogger demo_env) unsigned_request
                   ''paddle'' empty_world))
       = [ConsoleLog ERROR ''Webhook processing error'',
          KvGet METRICS_kv ''error:unknown:2025-01-01'']
   \<and> METRICS (run_detached (snd (handleWebhook offline demo_env (createLogger demo_env)
                 unsigned_request ''paddle'' empty_world))) ''error:unknown:2025-01-01''
       = Some (''1'', 2592000)"
  by (simp add: demo_defs eval_defs)

text \<open>
  C3. In every run of the webhook handler the trace has either no POST to the backend
  at all, or exactly one, and the entry just before it is the \<^verbatim>\<open>put\<close> of the marker
  \<^verbatim>\<open>evt:<provider>:<eventId>\<close> with a TTL of 604800 seconds. After such a run the marker is
  in the ledger whatever the backend answered, so a later delivery of the same request
  never calls the backend again and, when it verifies, is answered
  ``Event already processed''.
\<close>

theorem marker_written_before_forward:
  assumes run: "handleWebhook rt e lg req provider w = (r, w')"
  shows "\<exists>tr. trace w' = trace w @ tr
          \<and> (backend_calls e tr = 0
              \<or> (\<exists>adapter pre post.
                    getProviderAdapter (Some (JStr provider)) = Inr adapter
                  \<and> tr = pre @ [KvPut EVENTS_kv (event_key provider (event_id_of adapter req))
                                  604800,
                                Fetch ''POST'' (backend_url e)] @ post
                  \<and> backend_calls e pre = 0 \<and> backend_calls e post = 0
                  \<and> EVENTS w' (event_key provider (event_id_of adapter req)) \<noteq> None
                  \<and> (\<forall>rt2 wmid. EVENTS wmid = EVENTS w' \<longrightarrow>
                        (\<exists>tr2. trace (snd (handleWebhook rt2 e lg req provider wmid))
                                 = trace wmid @ tr2 \<and> backend_calls e tr2 = 0)
                      \<and> (\<not> isl (fst (verifyWebhook adapter rt2 e lg req wmid)) \<longrightarrow>
                           fst (handleWebhook rt2 e lg req provider wmid)
                           = Inr (successResponse received ''Event already processed'')))))"
proof (cases "getProviderAdapter (Some (JStr provider))")
  case (Inl err)
  from ext_quiet(4) [OF handleWebhook_unsupported_ext [OF Inl, of e rt w lg req]] run
  show ?thesis by auto
next
  case (Inr adapter)
  let ?key = "event_key provider (event_id_of adapter req)"
  obtain res wv where v: "verifyWebhook adapter rt e lg req w = (res, wv)"
    by (cases "verifyWebhook adapter rt e lg req w")
  show ?thesis
  proof (cases res)
    case (Inl err)
    with v have "verifyWebhook adapter rt e lg req w = (Inl err, wv)" by simp
    from ext_quiet(4) [OF handleWebhook_rejected_ext [OF Inr this]] run
    show ?thesis by auto
  next
    case ev: (Inr event)
    with v have v': "verifyWebhook adapter rt e lg req w = (Inr event, wv)" by simp
    show ?thesis
    proof (cases "EVENTS w ?key = None")
      case False
      from redelivery_no_forward [OF Inr False, of rt e lg] run
      show ?thesis by auto
    next
      case True
      obtain w1 pre post where
        f: "handleWebhook rt e lg req provider w =
              (Inr (successResponse received ''Webhook processed successfully''), w1)"
           "EVENTS w1 ?key \<noteq> None"
           "trace w1 = trace w @ pre
              @ [KvPut EVENTS_kv ?key 604800, Fetch ''POST'' (backend_url e)] @ post"
           "backend_calls e pre = 0" "backend_calls e post = 0"
        using handleWebhook_fresh [OF Inr v' True] by blast
      have w1: "w' = w1" using f(1) run by simp
      have retry: "\<forall>rt2 wmid. EVENTS wmid = EVENTS w' \<longrightarrow>
                        (\<exists>tr2. trace (snd (handleWebhook rt2 e lg req provider wmid))
                                 = trace wmid @ tr2 \<and> backend_calls e tr2 = 0)
                      \<and> (\<not> isl (fst (verifyWebhook adapter rt2 e lg req wmid)) \<longrightarrow>
                           fst (handleWebhook rt2 e lg req provider wmid)
                           = Inr (successResponse received ''Event already processed''))"
      proof (intro allI impI conjI)
        fix rt2 and wmid :: world assume m: "EVENTS wmid = EVENTS w'"
        then have marked: "EVENTS wmid ?key \<noteq> None" using f(2) w1 by simp
        show "\<exists>tr2. trace (snd (handleWebhook rt2 e lg req provider wmid)) = trace wmid @ tr2
                    \<and> backend_calls e tr2 = 0"
          using redelivery_no_forward [OF Inr marked, of rt2 e lg] by blast
        assume "\<not> isl (fst (verifyWebhook adapter rt2 e lg req wmid))"
        then obtain ev2 wv2 where "verifyWebhook adapter rt2 e lg req wmid = (Inr ev2, wv2)"
          by (cases "verifyWebhook adapter rt2 e lg req wmid")
             (metis fst_conv isl_def sum.exhaust)
        from handleWebhook_duplicate [OF Inr this marked]
        show "fst (handleWebhook rt2 e lg req provider wmid)
              = Inr (successResponse received ''Event already processed'')" by simp
      qed
      show ?thesis
        using Inr f w1 retry by blast
    qed
  qed
qed

theorem marker_written_before_forward_witness:
  "trace (snd (handleWebhook offline demo_env (createLogger demo_env) signed_request ''paddle''
                 empty_world))
     = [ConsoleLog INFO ''Paddle webhook verified'',
        KvGet EVENTS_kv ''evt:paddle:evt_123'',
        KvPut EVENTS_kv ''evt:paddle:evt_123'' 604800,
        Fetch ''POST'' ''https://test-backend.com/internal/payment/notify'',
        ConsoleLog ERROR ''Failed to notify backend'',
        KvGet METRICS_kv ''error:unknown:2025-01-01'',
        KvGet METRICS_kv ''webhook:paddle:transaction.completed:2025-01-01'',
        KvPut METRICS_kv ''webhook:paddle:transaction.completed:2025-01-01'' 86400,
        ConsoleLog INFO ''Webhook processed successfully'']
   \<and> (\<exists>tr. trace (snd (handleWebhook offline demo_env (createLogger demo_env)
                             signed_request ''paddle'' empty_world))
               = trace empty_world @ tr
            \<and> backend_calls demo_env tr = 1)"
proof -
  have t: "trace (snd (handleWebhook offline demo_env (createLogger demo_env) signed_request
                         ''paddle'' empty_world))
     = [ConsoleLog INFO ''Paddle webhook verified'',
        KvGet EVENTS_kv ''evt:paddle:evt_123'',
        KvPut EVENTS_kv ''evt:paddle:evt_123'' 604800,
        Fetch ''POST'' ''https://test-backend.com/internal/payment/notify'',
        ConsoleLog ERROR ''Failed to notify backend'',
        KvGet METRICS_kv ''error:unknown:2025-01-01'',
        KvGet METRICS_kv ''webhook:paddle:transaction.completed:2025-01-01'',
        KvPut METRICS_kv ''webhook:paddle:transaction.completed:2025-01-01'' 86400,
        ConsoleLog INFO ''Webhook processed successfully'']"
    by (simp add: demo_defs eval_defs)
  obtain tr where tr: "trace (snd (handleWebhook offline demo_env (createLogger demo_env)
                             signed_request ''paddle'' empty_world)) = trace empty_world @ tr"
    using marker_written_before_forward [OF surjective_pairing] by blast
  then have "tr = trace (snd (handleWebhook offline demo_env (createLogger demo_env)
                             signed_request ''paddle'' empty_world))"
    by (simp add: empty_world_def)
  moreover have "backend_calls demo_env
     [ConsoleLog INFO ''Paddle webhook verified'',
        KvGet EVENTS_kv ''evt:paddle:evt_123'',
        KvPut EVENTS_kv ''evt:paddle:evt_123'' 604800,
        Fetch ''POST'' ''https://test-backend.com/internal/payment/notify'',
        ConsoleLog ERROR ''Failed to notify backend'',
        KvGet METRICS_kv ''error:unknown:2025-01-01'',
        KvGet METRICS_kv ''webhook:paddle:transaction.completed:2025-01-01'',
        KvPut METRICS_kv ''webhook:paddle:transaction.completed:2025-01-01'' 86400,
        ConsoleLog INFO ''Webhook processed successfully''] = 1"
    by (simp add: is_backend_call_def backend_url_def backend_base_def template_def
          demo_env_def)
  ultimately have "backend_calls demo_env tr = 1" using t by simp
  with t tr show ?thesis by blast
qed

text \<open>
  C4. For a verified event that the ledger does not hold, the answer does not depend on
  the backend: when the POST to the backend is rejected or answered non-2xx, the handler
  returns the 200 envelope \<^verbatim>\<open>{success: true, message, data: {received: true}}\<close>, the
  same response as any other run of that delivery in which the event verifies (one where
  the backend answered 200 among them).
\<close>

theorem backend_failure_absorbed:
  assumes ad: "getProviderAdapter (Some (JStr provider)) = Inr adapter"
    and v: "verifyWebhook adapter rt e lg req w = (Inr event, wv)"
    and fresh: "EVENTS w (event_key provider (event_id_of adapter req)) = None"
    and failed: "upstream_failed (fetch rt ''POST'' (backend_url e))"
    and v': "verifyWebhook adapter rt' e lg req w = (Inr event', wv')"
  shows "fst (handleWebhook rt e lg req provider w)
           = Inr (successResponse received ''Webhook processed successfully'')
         \<and> fst (handleWebhook rt e lg req provider w) = fst (handleWebhook rt' e lg req provider w)
         \<and> status (successResponse received ''Webhook processed successfully'') = 200
         \<and> json_body (successResponse received ''Webhook processed successfully'')
             = JObj [(''success'', JBool True),
                     (''message'', JStr ''Webhook processed successfully''),
                     (''data'', JObj [(''received'', JBool True)])]"
  using handleWebhook_fresh [OF ad v fresh] handleWebhook_fresh [OF ad v' fresh]
  by (auto simp add: successResponse_def jsonResponse_def stringify_def received_def)

theorem backend_failure_absorbed_witness:
  "upstream_failed (fetch offline ''POST'' (backend_url demo_env))
   \<and> \<not> upstream_failed (fetch backend_up ''POST'' (backend_url demo_env))
   \<and> fst (handleWebhook offline demo_env (createLogger demo_env) signed_request ''paddle''
            empty_world)
       = fst (handleWebhook backend_up demo_env (createLogger demo_env) signed_request
                ''paddle'' empty_world)
   \<and> fst (handleWebhook offline demo_env (createLogger demo_env) signed_request ''paddle''
            empty_world)
       = Inr (successResponse received ''Webhook processed successfully'')"
proof -
  have f: "upstream_failed (fetch offline ''POST'' (backend_url demo_env))"
    by (simp add: upstream_failed_def offline_def)
  have g: "\<not> upstream_failed (fetch backend_up ''POST'' (backend_url demo_env))"
    by (simp add: upstream_failed_def backend_up_def offline_def)
  show ?thesis
    using backend_failure_absorbed
            [OF paddle_resolves
                signed_request_verifies [OF offline_hmac, of "createLogger demo_env" empty_world]
                fresh_demo f
                signed_request_verifies [OF backend_up_hmac, of "createLogger demo_env" empty_world]]
          f g
    by metis
qed

section \<open>The replay window\<close>

text \<open>
  C5. Webhook verification is to reject a payload whose timestamp is more than the tolerance
  (300 seconds by default) from the current time, whether or not the signature matches.
  \<^verbatim>\<open>utils/webhook.js\<close> has the check, \<^verbatim>\<open>isTimestampValid\<close>, documented as validating the
  webhook's timestamp ``to prevent replay attacks'', but \<^verbatim>\<open>PaddleAdapter.verifyWebhook\<close> never
  calls it. At the request below the \<^verbatim>\<open>ts\<close> component of the signature is 1 and the clock
  reads 1735689600 seconds: \<^verbatim>\<open>isTimestampValid\<close> answers false for that timestamp, and
  \<^verbatim>\<open>verifyWebhook\<close> returns the event instead of failing.
\<close>

theorem stale_paddle_webhook_accepted:
  "sigParts (the (headers signed_request ''paddle-signature'')) ''ts'' = Some ''1''
   \<and> js_parseInt ''1'' = Some 1
   \<and> now_ms offline div 1000 = 1735689600
   \<and> \<not> isTimestampValid offline 1 None
   \<and> Paddle_verifyWebhook offline demo_env (createLogger demo_env) signed_request empty_world
       = (Inr paddle_event_object,
          empty_world\<lparr>trace := [ConsoleLog INFO ''Paddle webhook verified'']\<rparr>)"
  by (simp add: demo_defs Paddle_verifyWebhook_def falsy_string_def sigParts_def sig_part_def
        verifyHmacSignature_def isTimestampValid_def js_parseInt_def digit_val_def Let_def
        logger_log_def emit_def await_def request_json_def)

section \<open>The adapter factory\<close>

text \<open>
  C9. \<^verbatim>\<open>getProviderAdapter\<close> is a function of the name alone, and which adapter it
  returns depends only on the lower-cased name: \<^verbatim>\<open>paddle\<close>, \<^verbatim>\<open>paypal\<close> and \<^verbatim>\<open>stripe\<close> in
  any letter case give the adapter of that name. Every other name makes it throw
  ``Unsupported payment provider: <name>'', and each entry point that resolves the name
  hands that message to the caller: the webhook handler with status 400, the checkout and
  subscription handlers (for a body that passes their required-field check) with
  status 500.
\<close>

theorem adapter_resolution:
  "(toLowerCase name = ''paddle'' \<longrightarrow> getProviderAdapter (Some (JStr name)) = Inr PaddleAdapter)
   \<and> (toLowerCase name = ''paypal'' \<longrightarrow> getProviderAdapter (Some (JStr name)) = Inr PayPalAdapter)
   \<and> (toLowerCase name = ''stripe'' \<longrightarrow> getProviderAdapter (Some (JStr name)) = Inr StripeAdapter)
   \<and> (\<forall>adapter. getProviderAdapter (Some (JStr name)) = Inr adapter
         \<longrightarrow> getName adapter = toLowerCase name)
   \<and> (toLowerCase name = toLowerCase other \<longrightarrow>
         (\<forall>adapter. getProviderAdapter (Some (JStr name)) = Inr adapter
            \<longleftrightarrow> getProviderAdapter (Some (JStr other)) = Inr adapter))
   \<and> (toLowerCase name \<notin> {''paddle'', ''paypal'', ''stripe''} \<longrightarrow>
         getProviderAdapter (Some (JStr name))
           = Inl (Error (''Unsupported payment provider: '' @ name))
       \<and> fst (handleWebhook rt e lg req name w)
           = Inr (errorResponse (''Unsupported payment provider: '' @ name) 400)
       \<and> (body_json req = Some body \<and> get_member body ''provider'' = Some (JStr name)
            \<and> truthy (get_member body ''provider'') \<and> truthy (get_member body ''userId'')
            \<and> truthy (get_member body ''email'') \<and> truthy (get_member body ''amount'')
            \<and> truthy (get_member body ''productName'')
          \<longrightarrow> fst (handleCheckout rt e lg req w)
                = Inr (errorResponse (''Unsupported payment provider: '' @ name) 500))
       \<and> (body_json req = Some body \<and> get_member body ''provider'' = Some (JStr name)
            \<and> truthy (get_member body ''provider'') \<and> truthy (get_member body ''userId'')
            \<and> truthy (get_member body ''email'')
            \<and> (truthy (get_member body ''planId'') \<or> truthy (get_member body ''priceId''))
          \<longrightarrow> fst (handleSubscriptionCreate rt e lg req w)
                = Inr (errorResponse (''Unsupported payment provider: '' @ name) 500)))"
proof -
  have pure: "toLowerCase name = toLowerCase other \<Longrightarrow>
         getProviderAdapter (Some (JStr name)) = Inr adapter
            \<longleftrightarrow> getProviderAdapter (Some (JStr other)) = Inr adapter" for adapter
    by (simp add: Let_def)
  have un: "getProviderAdapter (Some (JStr name))
           = Inl (Error (''Unsupported payment provider: '' @ name))"
    if "toLowerCase name \<notin> {''paddle'', ''paypal'', ''stripe''}"
    using that by (simp add: Let_def)
  show ?thesis
  proof (intro conjI impI allI)
    show "toLowerCase name = ''paddle'' \<Longrightarrow> getProviderAdapter (Some (JStr name)) = Inr PaddleAdapter"
      by simp
    show "toLowerCase name = ''paypal'' \<Longrightarrow> getProviderAdapter (Some (JStr name)) = Inr PayPalAdapter"
      by simp
    show "toLowerCase name = ''stripe'' \<Longrightarrow> getProviderAdapter (Some (JStr name)) = Inr StripeAdapter"
      by simp
    show "getProviderAdapter (Some (JStr name)) = Inr adapter \<Longrightarrow> getName adapter = toLowerCase name"
      for adapter
      by (auto simp add: Let_def split: if_splits)
    show "toLowerCase name = toLowerCase other \<Longrightarrow>
         getProviderAdapter (Some (JStr name)) = Inr adapter
            \<longleftrightarrow> getProviderAdapter (Some (JStr other)) = Inr adapter" for adapter
      by (rule pure)
    assume n: "toLowerCase name \<notin> {''paddle'', ''paypal'', ''stripe''}"
    show "getProviderAdapter (Some (JStr name))
           = Inl (Error (''Unsupported payment provider: '' @ name))"
      by (rule un [OF n])
    show "fst (handleWebhook rt e lg req name w)
           = Inr (errorResponse (''Unsupported payment provider: '' @ name) 400)"
      using handleWebhook_unsupported [OF un [OF n], of rt e lg req w]
      by (simp only: message.simps fst_conv)
    show "fst (handleCheckout rt e lg req w)
                = Inr (errorResponse (''Unsupported payment provider: '' @ name) 500)"
      if h: "body_json req = Some body \<and> get_member body ''provider'' = Some (JStr name)
            \<and> truthy (get_member body ''provider'') \<and> truthy (get_member body ''userId'')
            \<and> truthy (get_member body ''email'') \<and> truthy (get_member body ''amount'')
            \<and> truthy (get_member body ''productName'')"
    proof -
      have "fst (handleCheckout rt e lg req w) = Inr (errorResponse (message
              (Error (''Unsupported payment provider: '' @ name))) 500)"
        by (rule handleCheckout_unsupported [of req body name]) (use h un [OF n] in blast)+
      then show ?thesis by (simp only: message.simps)
    qed
    show "fst (handleSubscriptionCreate rt e lg req w)
                = Inr (errorResponse (''Unsupported payment provider: '' @ name) 500)"
      if h: "body_json req = Some body \<and> get_member body ''provider'' = Some (JStr name)
            \<and> truthy (get_member body ''provider'') \<and> truthy (get_member body ''userId'')
            \<and> truthy (get_member body ''email'')
            \<and> (truthy (get_member body ''planId'') \<or> truthy (get_member body ''priceId''))"
    proof -
      have "fst (handleSubscriptionCreate rt e lg req w) = Inr (errorResponse (message
              (Error (''Unsupported payment provider: '' @ name))) 500)"
        by (rule handleSubscriptionCreate_unsupported [of req body name])
           (use h un [OF n] in blast)+
      then show ?thesis by (simp only: message.simps)
    qed
  qed
qed

theorem adapter_resolution_witness:
  "toLowerCase ''PayPal'' = ''paypal''
   \<and> getProviderAdapter (Some (JStr ''PayPal'')) = Inr PayPalAdapter
   \<and> getProviderAdapter (Some (JStr ''PADDLE'')) = Inr PaddleAdapter
   \<and> toLowerCase ''unsupported'' \<notin> {''paddle'', ''paypal'', ''stripe''}
   \<and> fst (handleWebhook offline demo_env (createLogger demo_env)
            (json_request unsupported_checkout) ''unsupported'' empty_world)
       = Inr (errorResponse ''Unsupported payment provider: unsupported'' 400)
   \<and> fst (handleCheckout offline demo_env (createLogger demo_env)
            (json_request unsupported_checkout) empty_world)
       = Inr (errorResponse ''Unsupported payment provider: unsupported'' 500)"
proof -
  have a: "toLowerCase ''PayPal'' = ''paypal''" "toLowerCase ''PADDLE'' = ''paddle''"
    "toLowerCase ''unsupported'' \<notin> {''paddle'', ''paypal'', ''stripe''}"
    by (simp_all add: toLowerCase_def lower_char_def)
  have b: "body_json (json_request unsupported_checkout) = Some unsupported_checkout
           \<and> get_member unsupported_checkout ''provider'' = Some (JStr ''unsupported'')
           \<and> truthy (get_member unsupported_checkout ''provider'')
           \<and> truthy (get_member unsupported_checkout ''userId'')
           \<and> truthy (get_member unsupported_checkout ''email'')
           \<and> truthy (get_member unsupported_checkout ''amount'')
           \<and> truthy (get_member unsupported_checkout ''productName'')"
    by (simp add: json_request_def unsupported_checkout_def)
  show ?thesis
    using adapter_resolution [of "''PayPal''" "''PayPal''"]
      adapter_resolution [of "''PADDLE''" "''PADDLE''"]
      adapter_resolution [of "''unsupported''" "''unsupported''" offline demo_env
        "createLogger demo_env" "json_request unsupported_checkout" empty_world
        unsupported_checkout]
      a b
    by simp
qed

section \<open>Failed processor calls\<close>

text \<open>
  C6 (as amended). When a request an adapter method sends to its processor is rejected
  or answered non-2xx (the token request of PayPal included), the method throws, and the
  handler that called it answers with the error envelope \<^verbatim>\<open>{success: false, error}\<close>:
  with status 500 from the checkout, receipt, subscription-creation and
  subscription-cancellation handlers, and with status 400 from the webhook handler,
  whose \<^verbatim>\<open>catch\<close> block answers every error with 400.
\<close>

theorem processor_failure_status:
  assumes "(method, url) \<in> set (upstream_calls e adapter operation)"
    and "upstream_failed (fetch rt method url)"
  shows "(operation = Checkout \<and> body_json req = Some body
          \<and> truthy (get_member body ''provider'') \<and> truthy (get_member body ''userId'')
          \<and> truthy (get_member body ''email'') \<and> truthy (get_member body ''amount'')
          \<and> truthy (get_member body ''productName'')
          \<and> getProviderAdapter (get_member body ''provider'') = Inr adapter
          \<longrightarrow> (\<exists>msg. fst (handleCheckout rt e lg req w) = Inr (errorResponse msg 500)))
       \<and> (operation = Subscribe \<and> body_json req = Some body
          \<and> truthy (get_member body ''provider'') \<and> truthy (get_member body ''userId'')
          \<and> truthy (get_member body ''email'')
          \<and> (truthy (get_member body ''planId'') \<or> truthy (get_member body ''priceId''))
          \<and> getProviderAdapter (get_member body ''provider'') = Inr adapter
          \<longrightarrow> (\<exists>msg. fst (handleSubscriptionCreate rt e lg req w)
                       = Inr (errorResponse msg 500)))
       \<and> (operation = GetSession ident
          \<and> SESSIONS w (''session:'' @ ident) = Some (stored, ttl) \<and> truthy (Some stored)
          \<and> getProviderAdapter (get_member stored ''provider'') = Inr adapter
          \<longrightarrow> (\<exists>msg. fst (handleReceipt rt e lg ident w) = Inr (errorResponse msg 500)))
       \<and> (operation = Cancel ident
          \<and> SESSIONS w (''session:'' @ ident) = Some (stored, ttl) \<and> truthy (Some stored)
          \<and> getProviderAdapter (get_member stored ''provider'') = Inr adapter
          \<longrightarrow> (\<exists>msg. fst (handleSubscriptionCancel rt e lg ident w)
                       = Inr (errorResponse msg 500)))
       \<and> (operation = VerifyWebhook
          \<and> getProviderAdapter (Some (JStr provider)) = Inr adapter
          \<longrightarrow> (\<exists>msg. fst (handleWebhook rt e lg req provider w)
                       = Inr (errorResponse msg 400)))
       \<and> status (errorResponse msg code) = code
       \<and> json_body (errorResponse msg code)
           = JObj [(''success'', JBool False), (''error'', JStr msg)]"
  using fails_adapter_call(1) [OF assms, where lg = lg and payload = "checkout_payload e body"]
    fails_adapter_call(2) [OF assms, where lg = lg and sessionId = ident]
    fails_adapter_call(3) [OF assms, where lg = lg and payload = "subscription_payload e body"]
    fails_adapter_call(4) [OF assms, where lg = lg and sessionId = ident]
    fails_adapter_call(5) [OF assms, where lg = lg and req = req]
    handleCheckout_adapter_fails [of req body adapter rt e lg w]
    handleSubscriptionCreate_adapter_fails [of req body adapter rt e lg w]
    handleReceipt_adapter_fails [of w ident stored ttl adapter rt e lg]
    handleSubscriptionCancel_adapter_fails [of w ident stored ttl adapter rt e lg]
    handleWebhook_adapter_fails [of provider adapter rt e lg req w]
  by (intro conjI impI) (simp_all del: getProviderAdapter.simps)

theorem processor_failure_status_witness:
  "(''POST'', ''https://api.paddle.com/transactions'')
     \<in> set (upstream_calls demo_env PaddleAdapter Checkout)
   \<and> upstream_failed (fetch offline ''POST'' ''https://api.paddle.com/transactions'')
   \<and> getProviderAdapter (get_member paddle_checkout ''provider'') = Inr PaddleAdapter
   \<and> (\<exists>msg. fst (handleCheckout offline demo_env (createLogger demo_env)
                    (json_request paddle_checkout) empty_world)
              = Inr (errorResponse msg 500))"
proof -
  have a: "(''POST'', ''https://api.paddle.com/transactions'')
     \<in> set (upstream_calls demo_env PaddleAdapter Checkout)"
    by (simp add: paddle_baseUrl_def demo_env_def)
  have b: "upstream_failed (fetch offline ''POST'' ''https://api.paddle.com/transactions'')"
    by (simp add: upstream_failed_def offline_def)
  have c: "body_json (json_request paddle_checkout) = Some paddle_checkout
          \<and> truthy (get_member paddle_checkout ''provider'')
          \<and> truthy (get_member paddle_checkout ''userId'')
          \<and> truthy (get_member paddle_checkout ''email'')
          \<and> truthy (get_member paddle_checkout ''amount'')
          \<and> truthy (get_member paddle_checkout ''productName'')
          \<and> getProviderAdapter (get_member paddle_checkout ''provider'') = Inr PaddleAdapter"
    by (simp add: json_request_def paddle_checkout_def toLowerCase_def lower_char_def)
  show ?thesis
    using processor_failure_status [OF a b, of "json_request paddle_checkout" paddle_checkout
            "createLogger demo_env" empty_world] a b c
    by blast
qed

text \<open>
  C6 as first stated (500 on every entry point, the webhook path included) fails
  when PayPal's verification endpoint is down: the webhook handler answers 400.
\<close>

theorem paypal_verification_outage_is_400:
  "(''POST'', ''https://api-m.paypal.com/v1/notifications/verify-webhook-signature'')
     \<in> set (upstream_calls demo_env PayPalAdapter VerifyWebhook)
   \<and> upstream_failed (fetch paypal_down ''POST''
         ''https://api-m.paypal.com/v1/notifications/verify-webhook-signature'')
   \<and> fst (handleWebhook paypal_down demo_env (createLogger demo_env) paypal_request ''paypal''
            empty_world)
       = Inr (errorResponse ''PayPal webhook verification failed: Internal Server Error'' 400)
   \<and> status (errorResponse ''PayPal webhook verification failed: Internal Server Error'' 400)
       \<noteq> 500"
  by (simp add: demo_defs upstream_failed_def paypal_baseUrl_def handleWebhook_def
        PayPal_verifyWebhook_def getAccessToken_def js_fetch_def emit_def await_def
        try_catch_def Let_def falsy_string_def request_json_def response_json_def
        logger_log_def incrementErrorMetric_def toLowerCase_def lower_char_def)

section \<open>Checkout sessions and receipts\<close>

text \<open>
  C8. A checkout whose five required fields are truthy, whose provider resolves and
  whose adapter call returns a session: the handler answers 200 with that session and
  stores, under \<^verbatim>\<open>session:<sessionId>\<close> (the id the processor issued) with the default TTL
  of 3600 seconds, a record whose \<^verbatim>\<open>amount\<close>, \<^verbatim>\<open>currency\<close> and \<^verbatim>\<open>productName\<close> are those
  of the request (a currency the request left out is left out of the record). In any
  later world that still holds the record, the KV lookup returns it, the receipt
  handler never answers 404 for that id, and it answers 200 with the record as
  \<^verbatim>\<open>session\<close> whenever the adapter's \<^verbatim>\<open>getSession\<close> call succeeds.
\<close>

theorem checkout_persists_session:
  assumes b: "body_json req = Some body"
    and t: "truthy (get_member body ''provider'') \<and> truthy (get_member body ''userId'')
            \<and> truthy (get_member body ''email'') \<and> truthy (get_member body ''amount'')
            \<and> truthy (get_member body ''productName'')"
    and ad: "getProviderAdapter (get_member body ''provider'') = Inr adapter"
    and cs: "createCheckoutSession adapter rt e lg (checkout_payload e body) w = (Inr session, w1)"
    and run: "handleCheckout rt e lg req w = (r, w')"
    and sid: "sessionId = template (obj_prop session ''sessionId'')"
  shows "r = Inr (successResponse (Some (stringify session))
                    ''Checkout session created successfully'')
         \<and> status (successResponse (Some (stringify session))
                      ''Checkout session created successfully'') = 200
         \<and> (\<exists>stored.
               SESSIONS w' (''session:'' @ sessionId) = Some (stored, 3600)
             \<and> get_member stored ''amount'' = get_member body ''amount''
             \<and> get_member stored ''currency'' = get_member body ''currency''
             \<and> get_member stored ''productName'' = get_member body ''productName''
             \<and> (\<forall>rt2 lg2 w2.
                   SESSIONS w2 (''session:'' @ sessionId) = Some (stored, 3600) \<longrightarrow>
                     fst (getSession (Some (JStr sessionId)) w2) = Inr stored
                   \<and> (\<exists>resp. fst (handleReceipt rt2 e lg2 sessionId w2) = Inr resp
                              \<and> (status resp = 200 \<or> status resp = 500))
                   \<and> (\<forall>details w3.
                         adapter_getSession adapter rt2 e lg2 sessionId
                           (w2\<lparr>trace := trace w2
                                   @ [KvGet SESSIONS_kv (''session:'' @ sessionId)]\<rparr>)
                           = (Inr details, w3) \<longrightarrow>
                         fst (handleReceipt rt2 e lg2 sessionId w2)
                           = Inr (successResponse
                                    (Some (stringify [(''session'', Some stored),
                                                      (''providerDetails'', details)]))
                                    ''Receipt retrieved successfully''))))"
proof -
  let ?stored = "stringify [(''userId'', get_member body ''userId''),
                            (''provider'', get_member body ''provider''),
                            (''email'', get_member body ''email''),
                            (''amount'', get_member body ''amount''),
                            (''currency'', get_member body ''currency''),
                            (''productName'', get_member body ''productName''),
                            (''createdAt'', Some (JStr (now_iso rt)))]"
  have c: "fst (handleCheckout rt e lg req w)
           = Inr (successResponse (Some (stringify session))
                    ''Checkout session created successfully'')"
    and s: "SESSIONS (snd (handleCheckout rt e lg req w)) (''session:'' @ sessionId)
            = Some (?stored, 3600)"
    using handleCheckout_created [OF b _ _ _ _ _ ad cs] t sid by simp_all
  have g: "get_member ?stored name
           = obj_prop [(''userId'', get_member body ''userId''),
                            (''provider'', get_member body ''provider''),
                            (''email'', get_member body ''email''),
                            (''amount'', get_member body ''amount''),
                            (''currency'', get_member body ''currency''),
                            (''productName'', get_member body ''productName''),
                            (''createdAt'', Some (JStr (now_iso rt)))] name" for name
    by (rule get_member_stringify) simp
  have f: "get_member ?stored ''amount'' = get_member body ''amount''"
    "get_member ?stored ''currency'' = get_member body ''currency''"
    "get_member ?stored ''productName'' = get_member body ''productName''"
    "get_member ?stored ''provider'' = get_member body ''provider''"
    by (simp_all add: g obj_prop_def)
  have tr: "truthy (Some ?stored)" by (simp add: stringify_def)
  have ad': "getProviderAdapter (get_member ?stored ''provider'') = Inr adapter"
    using ad f(4) by simp
  have rec: "\<forall>rt2 lg2 w2.
                   SESSIONS w2 (''session:'' @ sessionId) = Some (?stored, 3600) \<longrightarrow>
                     fst (getSession (Some (JStr sessionId)) w2) = Inr ?stored
                   \<and> (\<exists>resp. fst (handleReceipt rt2 e lg2 sessionId w2) = Inr resp
                              \<and> (status resp = 200 \<or> status resp = 500))
                   \<and> (\<forall>details w3.
                         adapter_getSession adapter rt2 e lg2 sessionId
                           (w2\<lparr>trace := trace w2
                                   @ [KvGet SESSIONS_kv (''session:'' @ sessionId)]\<rparr>)
                           = (Inr details, w3) \<longrightarrow>
                         fst (handleReceipt rt2 e lg2 sessionId w2)
                           = Inr (successResponse
                                    (Some (stringify [(''session'', Some ?stored),
                                                      (''providerDetails'', details)]))
                                    ''Receipt retrieved successfully''))"
  proof (intro allI impI conjI)
    fix rt2 lg2 and w2 :: world
    assume k: "SESSIONS w2 (''session:'' @ sessionId) = Some (?stored, 3600)"
    show "fst (getSession (Some (JStr sessionId)) w2) = Inr ?stored"
      using k by (simp add: getSession_def Let_def)
    show "\<exists>resp. fst (handleReceipt rt2 e lg2 sessionId w2) = Inr resp
                              \<and> (status resp = 200 \<or> status resp = 500)"
      by (rule handleReceipt_found(2) [OF k tr ad'])
    fix details w3
    assume "adapter_getSession adapter rt2 e lg2 sessionId
                           (w2\<lparr>trace := trace w2
                                   @ [KvGet SESSIONS_kv (''session:'' @ sessionId)]\<rparr>)
                           = (Inr details, w3)"
    then show "fst (handleReceipt rt2 e lg2 sessionId w2)
                           = Inr (successResponse
                                    (Some (stringify [(''session'', Some ?stored),
                                                      (''providerDetails'', details)]))
                                    ''Receipt retrieved successfully'')"
      by (rule handleReceipt_found(1) [OF k tr ad'])
  qed
  have "r = Inr (successResponse (Some (stringify session))
                    ''Checkout session created successfully'')"
    and "SESSIONS w' (''session:'' @ sessionId) = Some (?stored, 3600)"
    using c s run by simp_all
  then show ?thesis using f(1-3) rec
    by (intro conjI exI [of _ ?stored]) simp_all
qed

theorem checkout_persists_session_witness:
  "body_json (json_request paddle_checkout) = Some paddle_checkout
   \<and> getProviderAdapter (get_member paddle_checkout ''provider'') = Inr PaddleAdapter
   \<and> fst (createCheckoutSession PaddleAdapter paddle_up demo_env (createLogger demo_env)
            (checkout_payload demo_env paddle_checkout) empty_world) = Inr paddle_session
   \<and> fst (handleCheckout paddle_up demo_env (createLogger demo_env)
            (json_request paddle_checkout) empty_world)
       = Inr (successResponse (Some (stringify paddle_session))
                ''Checkout session created successfully'')
   \<and> (\<exists>stored.
         SESSIONS (snd (handleCheckout paddle_up demo_env (createLogger demo_env)
                          (json_request paddle_checkout) empty_world)) ''session:txn_123''
           = Some (stored, 3600)
       \<and> get_member stored ''amount'' = Some (JNum 1000)
       \<and> get_member stored ''currency'' = None
       \<and> get_member stored ''productName'' = Some (JStr ''Test Product'')
       \<and> fst (handleReceipt paddle_up demo_env (createLogger demo_env) ''txn_123''
                (snd (handleCheckout paddle_up demo_env (createLogger demo_env)
                        (json_request paddle_checkout) empty_world)))
           = Inr (successResponse
                    (Some (stringify [(''session'', Some stored),
                                      (''providerDetails'', Some paddle_transaction)]))
                    ''Receipt retrieved successfully''))"
proof -
  let ?L = "createLogger demo_env"
  let ?w' = "snd (handleCheckout paddle_up demo_env ?L (json_request paddle_checkout)
                    empty_world)"
  from checkout_persists_session
         [OF paddle_checkout_valid(1,2,3) paddle_up_checkout surjective_pairing
             paddle_checkout_valid(4), of ?L empty_world]
  obtain stored where
    r: "fst (handleCheckout paddle_up demo_env ?L (json_request paddle_checkout) empty_world)
          = Inr (successResponse (Some (stringify paddle_session))
                   ''Checkout session created successfully'')"
    and s: "SESSIONS ?w' (''session:'' @ ''txn_123'') = Some (stored, 3600)"
    and f: "get_member stored ''amount'' = get_member paddle_checkout ''amount''"
       "get_member stored ''currency'' = get_member paddle_checkout ''currency''"
       "get_member stored ''productName'' = get_member paddle_checkout ''productName''"
    and rec: "\<And>rt2 lg2 w2 details w3.
       SESSIONS w2 (''session:'' @ ''txn_123'') = Some (stored, 3600) \<Longrightarrow>
       adapter_getSession PaddleAdapter rt2 demo_env lg2 ''txn_123''
         (w2\<lparr>trace := trace w2 @ [KvGet SESSIONS_kv (''session:'' @ ''txn_123'')]\<rparr>)
         = (Inr details, w3) \<Longrightarrow>
       fst (handleReceipt rt2 demo_env lg2 ''txn_123'' w2)
         = Inr (successResponse
                  (Some (stringify [(''session'', Some stored), (''providerDetails'', details)]))
                  ''Receipt retrieved successfully'')"
    by blast
  have rc: "fst (handleReceipt paddle_up demo_env ?L ''txn_123'' ?w')
           = Inr (successResponse
                    (Some (stringify [(''session'', Some stored),
                                      (''providerDetails'', Some paddle_transaction)]))
                    ''Receipt retrieved successfully'')"
    by (rule rec [OF s paddle_up_getSession])
  have v: "get_member paddle_checkout ''amount'' = Some (JNum 1000)"
    "get_member paddle_checkout ''currency'' = None"
    "get_member paddle_checkout ''productName'' = Some (JStr ''Test Product'')"
    by (simp_all add: paddle_checkout_def)
  have "SESSIONS ?w' ''session:txn_123'' = Some (stored, 3600)" using s by simp
  then show ?thesis
    using r f v rc paddle_checkout_valid(1,3) paddle_up_checkout [of ?L] by auto
qed

end
